theory Spec2Isabelle
  imports Complex_Main "HOL-Library.Log_Nat"
begin

section \<open>JavaScript values read by the views\<close>

text \<open>
  The views read JSON fields that hold a string or nothing. A field is modelled as
  \<open>string option\<close>: \<open>None\<close> stands for a field that is \<open>undefined\<close> or \<open>null\<close>
  (the sources only apply \<open>===\<close> against a string literal and the truthiness test to
  these fields, and neither tells the two apart). \<open>truthy\<close> is JavaScript's ToBoolean
  on such a value: the empty string is falsy, every other string is truthy.
\<close>

type_synonym jsfield = "string option"

definition truthy :: "jsfield \<Rightarrow> bool" where
  "truthy v = (case v of None \<Rightarrow> False | Some s \<Rightarrow> s \<noteq> [])"

text \<open>\<open>v === 'lit'\<close> for a string literal.\<close>

definition seq :: "jsfield \<Rightarrow> string \<Rightarrow> bool" where
  "seq v lit = (v = Some lit)"

text \<open>
  \<open>{v && f(v)}\<close> in JSX: nothing is rendered for a falsy \<open>v\<close>, otherwise \<open>f\<close> of
  its string. \<open>v || dflt\<close> for a string default.
\<close>

definition whenTruthy :: "jsfield \<Rightarrow> (string \<Rightarrow> 'a list) \<Rightarrow> 'a list" where
  "whenTruthy v f = (case v of None \<Rightarrow> [] | Some s \<Rightarrow> if s \<noteq> [] then f s else [])"

definition orElse :: "jsfield \<Rightarrow> string \<Rightarrow> string" where
  "orElse v dflt = (case v of None \<Rightarrow> dflt | Some s \<Rightarrow> if s \<noteq> [] then s else dflt)"

section \<open>Data received from the API\<close>

record pattern =
  p_id :: string
  p_stage :: jsfield
  p_slot :: int
  p_filename :: string
  p_uploaded_at :: string

record order =
  o_id :: string
  order_number :: string
  created_at :: "int option"
  initial_pattern_status :: jsfield
  initial_pattern_date :: jsfield
  second_pattern_status :: jsfield
  second_pattern_date :: jsfield
  approved_pattern_status :: jsfield
  approved_pattern_date :: jsfield

record user =
  u_id :: string
  u_name :: string
  role :: jsfield
  is_approved :: bool

record chat =
  c_id :: string
  c_user_id :: string
  c_message :: string
  c_image_id :: jsfield
  c_quoted_message_text :: jsfield

text \<open>
  \<open>created_at\<close> is the time value of \<open>new Date(order.created_at)\<close> in milliseconds;
  \<open>None\<close> is an Invalid Date, whose time value is NaN.

  \<open>user?.role\<close> and \<open>order?.field\<close>: optional chaining on a value that may be null.
\<close>

definition user_role :: "user option \<Rightarrow> jsfield" where
  "user_role u = (case u of None \<Rightarrow> None | Some x \<Rightarrow> role x)"

definition ofield :: "(order \<Rightarrow> jsfield) \<Rightarrow> order option \<Rightarrow> jsfield" where
  "ofield f ord = (case ord of None \<Rightarrow> None | Some x \<Rightarrow> f x)"

section \<open>OrderDetail: grouping the fetched patterns by stage\<close>

text \<open>
  \<open>fetchOrderData\<close> builds the object \<open>patternsByStage\<close> from the response of
  \<open>GET /orders/:id/patterns\<close> with three \<open>Array.filter\<close> calls.
\<close>

record patterns_state =
  initial :: "pattern list"
  second :: "pattern list"
  approved :: "pattern list"

definition patternsByStage :: "pattern list \<Rightarrow> patterns_state" where
  "patternsByStage pdata =
     \<lparr> initial = filter (\<lambda>p. seq (p_stage p) ''initial'') pdata,
       second = filter (\<lambda>p. seq (p_stage p) ''second'') pdata,
       approved = filter (\<lambda>p. seq (p_stage p) ''approved'') pdata \<rparr>"

section \<open>OrderDetail: permissions and the rendered view\<close>

text \<open>The five permission flags computed from \<open>user?.role\<close>.\<close>

definition canUploadInitial :: "user option \<Rightarrow> bool" where
  "canUploadInitial u = (seq (user_role u) ''admin'' \<or> seq (user_role u) ''pattern_maker'')"

definition canUploadSecondApproved :: "user option \<Rightarrow> bool" where
  "canUploadSecondApproved u = (seq (user_role u) ''admin'' \<or> seq (user_role u) ''pattern_checker'')"

definition canApprove :: "user option \<Rightarrow> bool" where
  "canApprove u = (seq (user_role u) ''admin'' \<or> seq (user_role u) ''pattern_checker'')"

definition canUploadChatImage :: "user option \<Rightarrow> bool" where
  "canUploadChatImage u = (seq (user_role u) ''admin'' \<or> seq (user_role u) ''pattern_maker''
     \<or> seq (user_role u) ''pattern_checker'')"

definition isAdmin :: "user option \<Rightarrow> bool" where
  "isAdmin u = seq (user_role u) ''admin''"

text \<open>
  The component state that the rendering reads. \<open>selectedFiles\<close> is keyed by the
  template string \<open>`${stage}-${slot}`\<close>, modelled as the pair of stage and slot.
\<close>

record detail_state =
  d_order :: "order option"
  d_patterns :: patterns_state
  d_chats :: "chat list"
  d_loading :: bool
  d_selectedFiles :: "string \<times> int \<Rightarrow> jsfield"
  d_quotedMessage :: "chat option"
  d_chatImagePreview :: jsfield

text \<open>
  The interactive controls of the view, named after their \<open>data-testid\<close> (or their
  role in the chat form, where the source gives none). Stage and slot are the arguments
  the source interpolates into the test id.
\<close>

datatype control =
    BackButton
  | DeleteOrderButton
  | DownloadButton string int
  | DeletePatternButton string int
  | UploadInput string int
  | UploadButton string int
  | ApproveButton string
  | RejectButton string
  | ReplyButton string
  | ClearQuoteButton
  | ChatInput
  | ChatImageInput
  | ClearChatImageButton
  | SendMessageButton

text \<open>
  What the view renders, in document order: a control with its \<open>disabled\<close> attribute
  (\<open>False\<close> where the source sets none), the date badge and the status badge of a stage
  (stage, variant, text), and plain text. The date badge carries the field's string; the
  source formats it with \<open>toLocaleDateString\<close>.
\<close>

datatype element =
    Ctl control bool
  | DateBadge string string
  | StatusBadge string string string
  | Txt string

definition slotCard :: "user option \<Rightarrow> detail_state \<Rightarrow> string \<Rightarrow> pattern list \<Rightarrow> bool \<Rightarrow> int \<Rightarrow> element list" where
  "slotCard u st stage stagePatterns canUpload slot =
     (case find (\<lambda>p. p_slot p = slot) stagePatterns of
        Some pat \<Rightarrow>
          [Txt (p_filename pat), Txt (p_uploaded_at pat), Ctl (DownloadButton stage slot) False]
          @ (if isAdmin u then [Ctl (DeletePatternButton stage slot) False] else [])
      | None \<Rightarrow>
          (if canUpload then
             [Ctl (UploadInput stage slot) False]
             @ whenTruthy (d_selectedFiles st (stage, slot)) (\<lambda>selectedFileName. [Txt selectedFileName])
             @ [Ctl (UploadButton stage slot) False]
           else [Txt ''No file uploaded'']))"

text \<open>
  The five slot cards of a stage. The source also computes \<open>isInitialRejected\<close> and
  \<open>shouldEnableSecondButtons\<close> here and never reads them; they are left out.
\<close>

definition renderPatternSlots :: "user option \<Rightarrow> detail_state \<Rightarrow> string \<Rightarrow> pattern list \<Rightarrow> bool \<Rightarrow> element list" where
  "renderPatternSlots u st stage stagePatterns canUpload =
     concat (map (slotCard u st stage stagePatterns canUpload) [1, 2, 3, 4, 5])"

text \<open>
  The header of a stage card: \<open>{order?.X_pattern_date && <Badge .../>}\<close> followed by
  \<open>{order?.X_pattern_status && <Badge variant=... />}\<close>.
\<close>

definition stageBadges :: "string \<Rightarrow> jsfield \<Rightarrow> jsfield \<Rightarrow> element list" where
  "stageBadges stage date status =
     whenTruthy date (\<lambda>d. [DateBadge stage d])
     @ whenTruthy status
         (\<lambda>s. [StatusBadge stage (if s = ''approved'' then ''default'' else ''destructive'') s])"

text \<open>
  A chat message (quoted text, message, image, reply button) and the chat form. Styling,
  the sender's name and the time stamp are left out.
\<close>

definition chatBubble :: "chat \<Rightarrow> element list" where
  "chatBubble c =
     whenTruthy (c_quoted_message_text c) (\<lambda>q. [Txt q])
     @ [Txt (c_message c)]
     @ whenTruthy (c_image_id c) (\<lambda>i. [Txt i])
     @ [Ctl (ReplyButton (c_id c)) False]"

definition chatForm :: "user option \<Rightarrow> detail_state \<Rightarrow> element list" where
  "chatForm u st =
     (case d_quotedMessage st of
        Some q \<Rightarrow> [Txt (c_message q), Ctl ClearQuoteButton False]
      | None \<Rightarrow> [])
     @ [Ctl ChatInput False]
     @ (if canUploadChatImage u then
          [Ctl ChatImageInput False]
          @ whenTruthy (d_chatImagePreview st) (\<lambda>n. [Txt n, Ctl ClearChatImageButton False])
        else [])
     @ [Ctl SendMessageButton False]"

text \<open>
  The whole view: the loading screen, or the header, the three stage cards (badges, slots,
  approve and reject buttons; the approved stage has no such buttons) and the chat. The
  order number and the sheet link of the header are static text and left out.
\<close>

definition renderOrderDetail :: "user option \<Rightarrow> detail_state \<Rightarrow> element list" where
  "renderOrderDetail u st =
     (if d_loading st then [Txt ''Loading...'']
      else
        [Ctl BackButton False]
        @ (if isAdmin u then [Ctl DeleteOrderButton False] else [])
        @ stageBadges ''initial'' (ofield initial_pattern_date (d_order st))
            (ofield initial_pattern_status (d_order st))
        @ renderPatternSlots u st ''initial'' (initial (d_patterns st)) (canUploadInitial u)
        @ (if canApprove u \<and> \<not> truthy (ofield initial_pattern_status (d_order st))
           then [Ctl (ApproveButton ''initial'') False, Ctl (RejectButton ''initial'') False]
           else [])
        @ stageBadges ''second'' (ofield second_pattern_date (d_order st))
            (ofield second_pattern_status (d_order st))
        @ renderPatternSlots u st ''second'' (second (d_patterns st)) (canUploadSecondApproved u)
        @ (if canApprove u \<and> \<not> truthy (ofield second_pattern_status (d_order st))
           then [Ctl (ApproveButton ''second'')
                   (\<not> seq (ofield initial_pattern_status (d_order st)) ''rejected''),
                 Ctl (RejectButton ''second'')
                   (\<not> seq (ofield initial_pattern_status (d_order st)) ''rejected'')]
           else [])
        @ stageBadges ''approved'' (ofield approved_pattern_date (d_order st))
            (ofield approved_pattern_status (d_order st))
        @ renderPatternSlots u st ''approved'' (approved (d_patterns st)) (canUploadSecondApproved u)
        @ concat (map chatBubble (d_chats st))
        @ chatForm u st)"

section \<open>API calls and their error paths\<close>

text \<open>
  Every function of the client that calls the API, by component. \<open>handleSubmit\<close> of the
  login form carries \<open>isLogin\<close>, \<open>handleApproval\<close> its stage and status: their success
  messages depend on them.
\<close>

datatype handler =
    Dashboard_fetchOrders
  | Dashboard_createOrder
  | NewDashboard_fetchMetrics
  | AdminPanel_fetchUsers
  | AdminPanel_updateRole
  | AdminPanel_approveUser
  | Orders_fetchOrders
  | Orders_createOrder
  | Login_handleSubmit bool
  | OrderDetail_fetchOrderData
  | OrderDetail_fetchChats
  | OrderDetail_handleFileUpload
  | OrderDetail_handleDeletePattern
  | OrderDetail_handleDownload
  | OrderDetail_handleApproval string string
  | OrderDetail_handleSendMessage
  | OrderDetail_handleDeleteOrder

datatype http_method = GET | POST | PATCH | DELETE

text \<open>The axios calls inside the handler's \<open>try\<close> block.\<close>

fun requests :: "handler \<Rightarrow> http_method list" where
  "requests Dashboard_fetchOrders = [GET]"
| "requests Dashboard_createOrder = [POST]"
| "requests NewDashboard_fetchMetrics = [GET]"
| "requests AdminPanel_fetchUsers = [GET]"
| "requests AdminPanel_updateRole = [PATCH]"
| "requests AdminPanel_approveUser = [PATCH]"
| "requests Orders_fetchOrders = [GET]"
| "requests Orders_createOrder = [POST]"
| "requests (Login_handleSubmit isLogin) = [POST]"
| "requests OrderDetail_fetchOrderData = [GET, GET, GET]"
| "requests OrderDetail_fetchChats = [GET]"
| "requests OrderDetail_handleFileUpload = [POST]"
| "requests OrderDetail_handleDeletePattern = [DELETE]"
| "requests OrderDetail_handleDownload = [GET]"
| "requests (OrderDetail_handleApproval stage status) = [POST]"
| "requests OrderDetail_handleSendMessage = [POST]"
| "requests OrderDetail_handleDeleteOrder = [DELETE]"

text \<open>
  What a state setter is called with: data of the response, the literals \<open>[]\<close>,
  \<open>false\<close>, \<open>null\<close> and \<open>''\<close>, the empty order form, or an updater function.
\<close>

datatype setval = FromResponse | EmptyList | FalseLit | NullLit | EmptyString | EmptyForm | Updater

text \<open>
  What a handler does once its request has settled: toasts (the transient notifications
  of the \<open>sonner\<close> library), state setters (the name of the state variable and the new
  value), calls of other handlers, navigation, the auth context's \<open>login\<close>, and DOM work.
\<close>

datatype effect =
    ToastError string
  | ToastSuccess string
  | SetState string setval
  | Call handler
  | Navigate string
  | LoginCtx
  | Dom string

text \<open>
  The rejection axios hands to \<open>catch\<close>: \<open>error.response?.status\<close> and
  \<open>error.response?.data?.detail\<close> (a string when the API sends one).
\<close>

record api_error =
  e_status :: "int option"
  e_detail :: jsfield

datatype outcome = Resolved | Rejected api_error

text \<open>The rest of the \<open>try\<close> block after the awaited call.\<close>

fun on_success :: "handler \<Rightarrow> effect list" where
  "on_success Dashboard_fetchOrders = [SetState ''orders'' FromResponse]"
| "on_success Dashboard_createOrder =
     [ToastSuccess ''Order created successfully!'', SetState ''dialogOpen'' FalseLit, SetState ''formData'' EmptyForm,
      Call Dashboard_fetchOrders]"
| "on_success NewDashboard_fetchMetrics = [SetState ''metrics'' FromResponse]"
| "on_success AdminPanel_fetchUsers = [SetState ''users'' FromResponse]"
| "on_success AdminPanel_updateRole =
     [ToastSuccess ''Role updated successfully!'', Call AdminPanel_fetchUsers]"
| "on_success AdminPanel_approveUser =
     [ToastSuccess ''User approved successfully!'', Call AdminPanel_fetchUsers]"
| "on_success Orders_fetchOrders = [SetState ''allOrders'' FromResponse]"
| "on_success Orders_createOrder =
     [ToastSuccess ''Order created successfully!'', SetState ''dialogOpen'' FalseLit, SetState ''formData'' EmptyForm,
      Call Orders_fetchOrders]"
| "on_success (Login_handleSubmit isLogin) =
     [LoginCtx,
      ToastSuccess (if isLogin then ''Logged in successfully!'' else ''Account created successfully!'')]"
| "on_success OrderDetail_fetchOrderData =
     [SetState ''order'' FromResponse, SetState ''chats'' FromResponse, SetState ''patterns'' FromResponse]"
| "on_success OrderDetail_fetchChats = [SetState ''chats'' FromResponse]"
| "on_success OrderDetail_handleFileUpload =
     [ToastSuccess ''Pattern uploaded successfully!'', SetState ''selectedFiles'' Updater,
      Call OrderDetail_fetchOrderData]"
| "on_success OrderDetail_handleDeletePattern =
     [ToastSuccess ''Pattern deleted successfully!'', Call OrderDetail_fetchOrderData]"
| "on_success OrderDetail_handleDownload = [Dom ''download link'', ToastSuccess ''Download started'']"
| "on_success (OrderDetail_handleApproval stage status) =
     [ToastSuccess (''Order '' @ status @ '' successfully!''), Call OrderDetail_fetchOrderData]"
| "on_success OrderDetail_handleSendMessage =
     [SetState ''chatMessage'' EmptyString, SetState ''chatImage'' NullLit, SetState ''chatImagePreview'' NullLit,
      SetState ''quotedMessage'' NullLit, Dom ''chat-image-input'', Call OrderDetail_fetchChats]"
| "on_success OrderDetail_handleDeleteOrder =
     [ToastSuccess ''Order deleted successfully!'', Navigate ''/'']"

text \<open>The \<open>catch\<close> block.\<close>

fun on_error :: "handler \<Rightarrow> api_error \<Rightarrow> effect list" where
  "on_error Dashboard_fetchOrders e =
     (if e_status e = Some 403 then [SetState ''orders'' EmptyList]
      else [ToastError ''Failed to fetch orders''])"
| "on_error Dashboard_createOrder e = [ToastError (orElse (e_detail e) ''Failed to create order'')]"
| "on_error NewDashboard_fetchMetrics e = [ToastError ''Failed to fetch metrics'']"
| "on_error AdminPanel_fetchUsers e = [ToastError ''Failed to fetch users'']"
| "on_error AdminPanel_updateRole e = [ToastError (orElse (e_detail e) ''Failed to update role'')]"
| "on_error AdminPanel_approveUser e = [ToastError (orElse (e_detail e) ''Failed to approve user'')]"
| "on_error Orders_fetchOrders e =
     (if e_status e = Some 403 then [SetState ''allOrders'' EmptyList]
      else [ToastError ''Failed to fetch orders''])"
| "on_error Orders_createOrder e = [ToastError (orElse (e_detail e) ''Failed to create order'')]"
| "on_error (Login_handleSubmit isLogin) e = [ToastError (orElse (e_detail e) ''An error occurred'')]"
| "on_error OrderDetail_fetchOrderData e = [ToastError ''Failed to fetch order data'']"
| "on_error OrderDetail_fetchChats e = []"
| "on_error OrderDetail_handleFileUpload e = [ToastError (orElse (e_detail e) ''Upload failed'')]"
| "on_error OrderDetail_handleDeletePattern e = [ToastError (orElse (e_detail e) ''Delete failed'')]"
| "on_error OrderDetail_handleDownload e = [ToastError ''Download failed'']"
| "on_error (OrderDetail_handleApproval stage status) e =
     [ToastError (orElse (e_detail e) ''Action failed'')]"
| "on_error OrderDetail_handleSendMessage e =
     [ToastError (orElse (e_detail e) ''Failed to send message'')]"
| "on_error OrderDetail_handleDeleteOrder e =
     [ToastError (orElse (e_detail e) ''Failed to delete order'')]"

text \<open>The \<open>finally\<close> block, where the handler has one.\<close>

fun finally_block :: "handler \<Rightarrow> effect list" where
  "finally_block Dashboard_fetchOrders = [SetState ''loading'' FalseLit]"
| "finally_block NewDashboard_fetchMetrics = [SetState ''loading'' FalseLit]"
| "finally_block AdminPanel_fetchUsers = [SetState ''loading'' FalseLit]"
| "finally_block Orders_fetchOrders = [SetState ''loading'' FalseLit]"
| "finally_block (Login_handleSubmit isLogin) = [SetState ''loading'' FalseLit]"
| "finally_block OrderDetail_fetchOrderData = [SetState ''loading'' FalseLit]"
| "finally_block h = []"

definition settle :: "handler \<Rightarrow> outcome \<Rightarrow> effect list" where
  "settle h r = (case r of Resolved \<Rightarrow> on_success h | Rejected e \<Rightarrow> on_error h e) @ finally_block h"

text \<open>
  The order list held in the state variable \<open>var\<close> after the effects, from the list it
  held before and the data of the response.
\<close>

fun set_orders :: "string \<Rightarrow> order list \<Rightarrow> effect \<Rightarrow> order list \<Rightarrow> order list" where
  "set_orders var data (SetState n v) cur =
     (if n = var then (case v of FromResponse \<Rightarrow> data | EmptyList \<Rightarrow> [] | _ \<Rightarrow> cur) else cur)"
| "set_orders var data eff cur = cur"

definition orders_after :: "string \<Rightarrow> order list \<Rightarrow> effect list \<Rightarrow> order list \<Rightarrow> order list" where
  "orders_after var data effs cur = fold (set_orders var data) effs cur"

definition toastErrors :: "effect list \<Rightarrow> string list" where
  "toastErrors es = concat (map (\<lambda>x. case x of ToastError m \<Rightarrow> [m] | _ \<Rightarrow> []) es)"

definition calls :: "effect list \<Rightarrow> handler list" where
  "calls es = concat (map (\<lambda>x. case x of Call h \<Rightarrow> [h] | _ \<Rightarrow> []) es)"

text \<open>
  The two silent error paths of the source: the chat poll (\<open>// Silently fail for
  polling\<close>) and a 403 on the order list (\<open>// User not approved - silent failure\<close>).
\<close>

definition silent :: "handler \<Rightarrow> api_error \<Rightarrow> bool" where
  "silent h e = (h = OrderDetail_fetchChats
     \<or> ((h = Dashboard_fetchOrders \<or> h = Orders_fetchOrders) \<and> e_status e = Some 403))"

section \<open>OrderDetail: what a control triggers\<close>

text \<open>
  The requests sent when a control of the order view is activated, through the handler
  the source wires to it; controls that only navigate or change local state send none.
  A control is mutating when it sends a request other than GET.
\<close>

fun controlRequests :: "control \<Rightarrow> http_method list" where
  "controlRequests BackButton = []"
| "controlRequests DeleteOrderButton = requests OrderDetail_handleDeleteOrder"
| "controlRequests (DownloadButton stage slot) = requests OrderDetail_handleDownload"
| "controlRequests (DeletePatternButton stage slot) = requests OrderDetail_handleDeletePattern"
| "controlRequests (UploadInput stage slot) = []"
| "controlRequests (UploadButton stage slot) = requests OrderDetail_handleFileUpload"
| "controlRequests (ApproveButton stage) = requests (OrderDetail_handleApproval stage ''approved'')"
| "controlRequests (RejectButton stage) = requests (OrderDetail_handleApproval stage ''rejected'')"
| "controlRequests (ReplyButton cid) = []"
| "controlRequests ClearQuoteButton = []"
| "controlRequests ChatInput = []"
| "controlRequests ChatImageInput = []"
| "controlRequests ClearChatImageButton = []"
| "controlRequests SendMessageButton = requests OrderDetail_handleSendMessage"

definition mutating :: "control \<Rightarrow> bool" where
  "mutating c = (filter (\<lambda>m. m \<noteq> GET) (controlRequests c) \<noteq> [])"

section \<open>OrderDetail: the effect hook and the chat poll\<close>

text \<open>
  The browser side of \<open>useEffect(() => { fetchOrderData(); const interval =
  setInterval(fetchChats, 3000); return () => clearInterval(interval); }, [orderId])\<close>:
  the intervals registered with the browser, the requests sent and not yet settled (one
  entry per request, tagged with the handler that sent it), the next id \<open>setInterval\<close>
  hands out, and the interval id captured by the cleanup closure of the live effect
  (\<open>None\<close> while the component is not mounted).
\<close>

record timer =
  t_id :: nat
  t_period :: nat
  t_callback :: handler

record runtime =
  timers :: "timer list"
  inflight :: "handler list"
  next_timer :: nat
  cleanup :: "nat option"

definition issue :: "handler \<Rightarrow> runtime \<Rightarrow> runtime" where
  "issue h rt = rt\<lparr>inflight := inflight rt @ map (\<lambda>m. h) (requests h)\<rparr>"

definition setInterval :: "handler \<Rightarrow> nat \<Rightarrow> runtime \<Rightarrow> nat \<times> runtime" where
  "setInterval cb ms rt =
     (next_timer rt,
      rt\<lparr>timers := timers rt @ [\<lparr>t_id = next_timer rt, t_period = ms, t_callback = cb\<rparr>],
         next_timer := Suc (next_timer rt)\<rparr>)"

definition clearInterval :: "nat \<Rightarrow> runtime \<Rightarrow> runtime" where
  "clearInterval i rt = rt\<lparr>timers := filter (\<lambda>t. t_id t \<noteq> i) (timers rt)\<rparr>"

definition orderEffect :: "runtime \<Rightarrow> runtime" where
  "orderEffect rt =
     (let rt1 = issue OrderDetail_fetchOrderData rt;
          (interval, rt2) = setInterval OrderDetail_fetchChats 3000 rt1
      in rt2\<lparr>cleanup := Some interval\<rparr>)"

definition runCleanup :: "runtime \<Rightarrow> runtime" where
  "runCleanup rt =
     (case cleanup rt of
        None \<Rightarrow> rt
      | Some interval \<Rightarrow> (clearInterval interval rt)\<lparr>cleanup := None\<rparr>)"

text \<open>
  What can happen to the mounted view: React mounts it (the effect runs), unmounts it (the
  cleanup runs), the route's \<open>orderId\<close> changes (cleanup, then the effect again), the
  browser fires the interval with a given id (its callback runs if the interval is still
  registered), and the \<open>k\<close>-th pending request settles.
\<close>

datatype event = Mount | Unmount | OrderIdChanged | Tick nat | Settled nat

fun step :: "event \<Rightarrow> runtime \<Rightarrow> runtime" where
  "step Mount rt = (if cleanup rt = None then orderEffect rt else rt)"
| "step Unmount rt = runCleanup rt"
| "step OrderIdChanged rt = (if cleanup rt = None then rt else orderEffect (runCleanup rt))"
| "step (Tick i) rt =
     (case find (\<lambda>t. t_id t = i) (timers rt) of
        None \<Rightarrow> rt
      | Some t \<Rightarrow> issue (t_callback t) rt)"
| "step (Settled k) rt = rt\<lparr>inflight := take k (inflight rt) @ drop (Suc k) (inflight rt)\<rparr>"

definition unmounted :: runtime where
  "unmounted = \<lparr>timers = [], inflight = [], next_timer = 0, cleanup = None\<rparr>"

definition run :: "event list \<Rightarrow> runtime" where
  "run es = fold step es unmounted"

text \<open>The poll of a mounted view: the one interval, every 3000 ms, calling \<open>fetchChats\<close>.\<close>

definition chatPoll :: "nat \<Rightarrow> timer" where
  "chatPoll i = \<lparr>t_id = i, t_period = 3000, t_callback = OrderDetail_fetchChats\<rparr>"

text \<open>
  The invariant of the runs: an unmounted view has no interval, a mounted one exactly the
  chat poll whose id its cleanup closure holds.
\<close>

definition poll_inv :: "runtime \<Rightarrow> bool" where
  "poll_inv rt = (case cleanup rt of
       None \<Rightarrow> timers rt = []
     | Some i \<Rightarrow> timers rt = [chatPoll i])"

section \<open>Orders: client-side filtering\<close>

text \<open>
  Time values are milliseconds since the epoch. The pieces of ECMAScript's date
  arithmetic that \<open>setDate\<close> is made of: the day number and the time within the day of a
  time value, their recombination, and the conversion between UTC and local time. The
  time zone is given by its offset from UTC in milliseconds, \<open>utcOffset\<close> at a UTC
  instant and \<open>localOffset\<close> at a local time; the two differ only around a clock change.
\<close>

definition msPerDay :: int where
  "msPerDay = 86400000"

definition Day :: "int \<Rightarrow> int" where
  "Day t = t div msPerDay"

definition TimeWithinDay :: "int \<Rightarrow> int" where
  "TimeWithinDay t = t mod msPerDay"

definition MakeDate :: "int \<Rightarrow> int \<Rightarrow> int" where
  "MakeDate day time = day * msPerDay + time"

definition LocalTime :: "(int \<Rightarrow> int) \<Rightarrow> int \<Rightarrow> int" where
  "LocalTime utcOffset t = t + utcOffset t"

definition UTC :: "(int \<Rightarrow> int) \<Rightarrow> int \<Rightarrow> int" where
  "UTC localOffset t = t - localOffset t"

text \<open>
  \<open>cutoffDate.setDate(cutoffDate.getDate() - dateFilter)\<close> on the time value \<open>tv\<close>.
  \<open>setDate(dt)\<close> takes the local time \<open>t\<close> of the date, replaces its day by
  \<open>MakeDay(YearFromTime(t), MonthFromTime(t), dt)\<close>, keeps the time within the day and
  converts back to UTC. \<open>MakeDay\<close> is the day number of the first of the month plus
  \<open>dt - 1\<close>; with \<open>dt = getDate() - dateFilter\<close> that is \<open>Day(t) - dateFilter\<close>.
\<close>

definition setDate_getDate_minus :: "(int \<Rightarrow> int) \<Rightarrow> (int \<Rightarrow> int) \<Rightarrow> int \<Rightarrow> int \<Rightarrow> int" where
  "setDate_getDate_minus utcOffset localOffset tv dateFilter =
     (let t = LocalTime utcOffset tv
      in UTC localOffset (MakeDate (Day t - dateFilter) (TimeWithinDay t)))"

text \<open>
  \<open>orderDate >= cutoffDate\<close> compares the time values of the two dates; it is false when
  \<open>orderDate\<close> is an Invalid Date.
\<close>

definition onOrAfter :: "int \<Rightarrow> order \<Rightarrow> bool" where
  "onOrAfter cutoffDate ord =
     (case created_at ord of None \<Rightarrow> False | Some orderDate \<Rightarrow> orderDate \<ge> cutoffDate)"

text \<open>
  \<open>applyFilters\<close> of the Orders page; \<open>now\<close> is the time value of \<open>new Date()\<close>.
\<close>

definition applyFilters :: "(int \<Rightarrow> int) \<Rightarrow> (int \<Rightarrow> int) \<Rightarrow> int \<Rightarrow> order list \<Rightarrow> string \<Rightarrow> int \<Rightarrow> order list" where
  "applyFilters utcOffset localOffset now allOrders statusFilter dateFilter =
     (let cutoffDate = setDate_getDate_minus utcOffset localOffset now dateFilter;
          filtered = filter (onOrAfter cutoffDate) allOrders
      in if statusFilter = ''approved'' then
           filter (\<lambda>ord. seq (approved_pattern_status ord) ''approved'') filtered
         else if statusFilter = ''rejected'' then
           filter (\<lambda>ord. seq (initial_pattern_status ord) ''rejected''
                        \<or> seq (second_pattern_status ord) ''rejected''
                        \<or> seq (approved_pattern_status ord) ''rejected'') filtered
         else if statusFilter = ''no_action'' then
           filter (\<lambda>ord. \<not> truthy (initial_pattern_status ord)
                        \<and> \<not> truthy (second_pattern_status ord)
                        \<and> \<not> truthy (approved_pattern_status ord)) filtered
         else filtered)"

section \<open>Dashboard: rendering the order list\<close>

text \<open>
  The identifiers bound where the JSX of \<open>Dashboard\<close> is evaluated: the imports of
  lines 1 to 12 of Dashboard.jsx, the component itself and its local constants. (No
  global of a browser is called \<open>Shield\<close>; the icon of that name is imported by
  AdminPanel.jsx only.)
\<close>

definition Dashboard_scope :: "string list" where
  "Dashboard_scope =
     [''React'', ''useState'', ''useEffect'', ''useContext'', ''useNavigate'', ''AuthContext'',
      ''API'', ''axios'', ''Button'', ''Input'', ''Label'', ''Card'', ''CardContent'',
      ''CardHeader'', ''CardTitle'', ''Dialog'', ''DialogContent'', ''DialogHeader'',
      ''DialogTitle'', ''DialogTrigger'', ''Badge'', ''toast'', ''Plus'', ''LogOut'',
      ''Settings'', ''FileText'', ''Calendar'',
      ''Dashboard'', ''navigate'', ''user'', ''logout'', ''orders'', ''setOrders'', ''loading'',
      ''setLoading'', ''dialogOpen'', ''setDialogOpen'', ''formData'', ''setFormData'',
      ''fetchOrders'', ''createOrder'', ''getRoleBadgeColor'', ''getRoleLabel'',
      ''canCreateOrder'']"

datatype js_error = ReferenceError string

text \<open>
  Evaluating the component identifiers of a JSX fragment in source order: an identifier
  that is not bound throws a \<open>ReferenceError\<close>, which aborts the render.
\<close>

fun resolve :: "string list \<Rightarrow> js_error + unit" where
  "resolve [] = Inr ()"
| "resolve (n # ns) = (if n \<in> set Dashboard_scope then resolve ns else Inl (ReferenceError n))"

record dashboard_state =
  ds_orders :: "order list"
  ds_loading :: bool

datatype dashboard_view =
    Shimmer
  | PendingApproval
  | NoOrdersYetCard bool
  | OrderGrid "string list"

definition user_approved :: "user option \<Rightarrow> bool" where
  "user_approved u = (case u of None \<Rightarrow> False | Some x \<Rightarrow> is_approved x)"

definition canCreateOrder :: "user option \<Rightarrow> bool" where
  "canCreateOrder u = (seq (user_role u) ''admin'' \<or> seq (user_role u) ''order_uploader'')"

text \<open>The component identifiers of the header and the action bar (lines 84 to 188).\<close>

definition headerTags :: "user option \<Rightarrow> string list" where
  "headerTags u =
     [''Badge'']
     @ (if seq (user_role u) ''admin'' then [''Button'', ''Settings''] else [])
     @ [''Button'', ''LogOut'']
     @ (if canCreateOrder u then
          [''Dialog'', ''DialogTrigger'', ''Button'', ''Plus'', ''DialogContent'', ''DialogHeader'',
           ''DialogTitle'', ''Label'', ''Input'', ''Label'', ''Input'', ''Button'']
        else [])"

text \<open>The component identifiers of one order card (lines 226 to 282).\<close>

definition orderCardTags :: "string list" where
  "orderCardTags =
     [''Card'', ''CardHeader'', ''CardTitle'', ''Calendar'', ''CardContent'', ''Badge'', ''Badge'',
      ''Badge'', ''Button'']"

text \<open>The orders grid (lines 190 to 285), after the header.\<close>

definition renderDashboard :: "user option \<Rightarrow> dashboard_state \<Rightarrow> js_error + dashboard_view" where
  "renderDashboard u st =
     (case resolve (headerTags u) of
        Inl err \<Rightarrow> Inl err
      | Inr _ \<Rightarrow>
         (if ds_loading st then
            (case resolve (replicate 6 ''Card'') of Inl err \<Rightarrow> Inl err | Inr _ \<Rightarrow> Inr Shimmer)
          else if ds_orders st = [] then
            (case resolve [''Card''] of
               Inl err \<Rightarrow> Inl err
             | Inr _ \<Rightarrow>
                (if \<not> user_approved u \<and> \<not> seq (user_role u) ''admin'' then
                   (case resolve [''Shield''] of
                      Inl err \<Rightarrow> Inl err
                    | Inr _ \<Rightarrow> Inr PendingApproval)
                 else
                   (case resolve ([''FileText'']
                           @ (if canCreateOrder u then [''Button'', ''Plus''] else [])) of
                      Inl err \<Rightarrow> Inl err
                    | Inr _ \<Rightarrow> Inr (NoOrdersYetCard (canCreateOrder u)))))
          else
            (case resolve (concat (map (\<lambda>ord. orderCardTags) (ds_orders st))) of
               Inl err \<Rightarrow> Inl err
             | Inr _ \<Rightarrow> Inr (OrderGrid (map order_number (ds_orders st))))))"

text \<open>
  The state after \<open>fetchOrders\<close> has settled, from the state before: the response's
  order list on success, the empty list on a 403, the old list on any other error, and
  \<open>loading\<close> off in \<open>finally\<close>.
\<close>

definition fetchOrders_settled :: "api_error + order list \<Rightarrow> dashboard_state \<Rightarrow> dashboard_state" where
  "fetchOrders_settled r st =
     (case r of
        Inr data \<Rightarrow> st\<lparr>ds_orders := data, ds_loading := False\<rparr>
      | Inl e \<Rightarrow>
          (if e_status e = Some 403 then st\<lparr>ds_orders := [], ds_loading := False\<rparr>
           else st\<lparr>ds_loading := False\<rparr>))"

definition dashboard_initial :: dashboard_state where
  "dashboard_initial = \<lparr>ds_orders = [], ds_loading = True\<rparr>"

section \<open>NewDashboard: derived metrics\<close>

text \<open>
  JavaScript numbers are IEEE 754 doubles. A finite double is held as the rational it
  denotes; the sign of zero is not modelled. Comparison, division, multiplication and
  addition follow IEEE 754: the exact result is rounded to the nearest double, and a
  division by zero does not throw, it yields an infinity or NaN.
\<close>

datatype jsnum = Fin rat | PosInf | NegInf | NaN

text \<open>
  Rounding an exact result to a double (binary64, round to nearest, ties to even): the
  exponent of the value, no smaller than that of the subnormal range, fixes the spacing of
  the doubles around it (53 significant bits); the value is rounded to a multiple of that
  spacing; a result of magnitude \<open>2 ^ 1024\<close> or more is an infinity.
\<close>

definition pow2 :: "int \<Rightarrow> rat" where
  "pow2 k = (if 0 \<le> k then 2 ^ nat k else 1 / 2 ^ nat (- k))"

definition ilog2 :: "rat \<Rightarrow> int" where
  "ilog2 a = (let (p, q) = quotient_of a; k = bitlen p - bitlen q
              in if pow2 k \<le> a then k else k - 1)"

definition round_half_even :: "rat \<Rightarrow> int" where
  "round_half_even r =
     (let n = \<lfloor>r\<rfloor>; f = r - of_int n
      in if f < 1 / 2 then n else if 1 / 2 < f then n + 1 else if even n then n else n + 1)"

definition binary64 :: "rat \<Rightarrow> jsnum" where
  "binary64 x =
     (if x = 0 then Fin 0
      else let a = \<bar>x\<bar>;
               e = max (ilog2 a) (- 1022);
               u = pow2 (e - 52);
               v = of_int (round_half_even (a / u)) * u
           in if pow2 1024 \<le> v then (if 0 < x then PosInf else NegInf)
              else Fin (if 0 < x then v else - v))"

fun js_lt :: "jsnum \<Rightarrow> jsnum \<Rightarrow> bool" where
  "js_lt (Fin x) (Fin y) = (x < y)"
| "js_lt (Fin x) PosInf = True"
| "js_lt (Fin x) NegInf = False"
| "js_lt NegInf (Fin y) = True"
| "js_lt NegInf PosInf = True"
| "js_lt NegInf NegInf = False"
| "js_lt PosInf b = False"
| "js_lt NaN b = False"
| "js_lt a NaN = False"

definition js_gt :: "jsnum \<Rightarrow> jsnum \<Rightarrow> bool" where
  "js_gt a b = js_lt b a"

fun js_div :: "jsnum \<Rightarrow> jsnum \<Rightarrow> jsnum" where
  "js_div (Fin x) (Fin y) =
     (if y = 0 then (if x = 0 then NaN else if 0 < x then PosInf else NegInf)
      else binary64 (x / y))"
| "js_div (Fin x) PosInf = Fin 0"
| "js_div (Fin x) NegInf = Fin 0"
| "js_div PosInf (Fin y) = (if 0 \<le> y then PosInf else NegInf)"
| "js_div NegInf (Fin y) = (if 0 \<le> y then NegInf else PosInf)"
| "js_div a b = NaN"

fun js_mul :: "jsnum \<Rightarrow> jsnum \<Rightarrow> jsnum" where
  "js_mul (Fin x) (Fin y) = binary64 (x * y)"
| "js_mul NaN b = NaN"
| "js_mul a NaN = NaN"
| "js_mul PosInf (Fin y) = (if y = 0 then NaN else if 0 < y then PosInf else NegInf)"
| "js_mul NegInf (Fin y) = (if y = 0 then NaN else if 0 < y then NegInf else PosInf)"
| "js_mul (Fin x) PosInf = (if x = 0 then NaN else if 0 < x then PosInf else NegInf)"
| "js_mul (Fin x) NegInf = (if x = 0 then NaN else if 0 < x then NegInf else PosInf)"
| "js_mul PosInf PosInf = PosInf"
| "js_mul PosInf NegInf = NegInf"
| "js_mul NegInf PosInf = NegInf"
| "js_mul NegInf NegInf = PosInf"

fun js_add :: "jsnum \<Rightarrow> jsnum \<Rightarrow> jsnum" where
  "js_add (Fin x) (Fin y) = binary64 (x + y)"
| "js_add NaN b = NaN"
| "js_add a NaN = NaN"
| "js_add PosInf NegInf = NaN"
| "js_add NegInf PosInf = NaN"
| "js_add PosInf b = PosInf"
| "js_add NegInf b = NegInf"
| "js_add a PosInf = PosInf"
| "js_add a NegInf = NegInf"

text \<open>
  \<open>Math.round\<close> rounds half up; \<open>toFixed(1)\<close> rounds the magnitude to tenths, half up,
  and keeps the sign (its result is a string; the model keeps the number it prints). Both
  work on the exact value of the double, and the result of \<open>Math.round\<close> is a double.
\<close>

fun Math_round :: "jsnum \<Rightarrow> jsnum" where
  "Math_round (Fin x) = Fin (of_int \<lfloor>x + 1 / 2\<rfloor>)"
| "Math_round a = a"

fun toFixed1 :: "jsnum \<Rightarrow> jsnum" where
  "toFixed1 (Fin x) = Fin ((if x < 0 then - 1 else 1) * of_int \<lfloor>\<bar>x\<bar> * 10 + 1 / 2\<rfloor> / 10)"
| "toFixed1 a = a"

text \<open>
  A division together with the log of its divisor, so that the divisors a render has
  divided by can be read off its result.
\<close>

definition js_div_log :: "jsnum \<Rightarrow> jsnum \<Rightarrow> jsnum \<times> jsnum list" where
  "js_div_log a b = (js_div a b, [b])"

text \<open>
  The fields of the metrics response that the page computes with, as the numbers that
  \<open>>\<close>, \<open>/\<close> and \<open>+\<close> see (both operators convert their operands the same way).
\<close>

record metrics =
  total_orders :: jsnum
  total_patterns :: jsnum
  approved_patterns :: jsnum
  avg_pattern_making_time_hours :: jsnum
  avg_approval_time_hours :: jsnum

datatype rate_text = ApprovalRate jsnum | NoOrdersYet

datatype ratio_text = PatternsPerOrder jsnum | ZeroText

datatype time_text = Mins jsnum | Hrs jsnum | Days jsnum

text \<open>
  \<open>metrics.total_orders > 0 ? `${Math.round((metrics.approved_patterns /
  metrics.total_orders) * 100)}% approval rate` : 'No orders yet'\<close>
\<close>

definition approvalRate :: "metrics \<Rightarrow> rate_text \<times> jsnum list" where
  "approvalRate m =
     (if js_gt (total_orders m) (Fin 0) then
        (let (q, ds) = js_div_log (approved_patterns m) (total_orders m)
         in (ApprovalRate (Math_round (js_mul q (Fin 100))), ds))
      else (NoOrdersYet, []))"

text \<open>
  \<open>metrics.total_orders > 0 ? (metrics.total_patterns / metrics.total_orders).toFixed(1)
  : '0'\<close>
\<close>

definition patternsPerOrder :: "metrics \<Rightarrow> ratio_text \<times> jsnum list" where
  "patternsPerOrder m =
     (if js_gt (total_orders m) (Fin 0) then
        (let (q, ds) = js_div_log (total_patterns m) (total_orders m)
         in (PatternsPerOrder (toFixed1 q), ds))
      else (ZeroText, []))"

definition formatTime :: "jsnum \<Rightarrow> time_text \<times> jsnum list" where
  "formatTime hours =
     (if js_lt hours (Fin 1) then (Mins (Math_round (js_mul hours (Fin 60))), [])
      else if js_lt hours (Fin 24) then (Hrs (toFixed1 hours), [])
      else (let (q, ds) = js_div_log hours (Fin 24) in (Days (toFixed1 q), ds)))"

text \<open>
  The cells of the page that show numbers: the five metric cards (or five placeholders
  while loading, or the no-data card), then the period summary, which is rendered whenever
  \<open>metrics\<close> is set. The date range of the summary is left out.
\<close>

datatype cell =
    CountCell jsnum
  | RateCell rate_text
  | RatioCell ratio_text
  | TimeCell time_text
  | ShimmerCell
  | NoDataCell

definition metricCards :: "metrics \<Rightarrow> cell list \<times> jsnum list" where
  "metricCards m =
     (let (r, d1) = approvalRate m;
          (t1, d2) = formatTime (avg_pattern_making_time_hours m);
          (t2, d3) = formatTime (avg_approval_time_hours m)
      in ([CountCell (total_orders m), CountCell (total_patterns m),
           CountCell (approved_patterns m), RateCell r, TimeCell t1, TimeCell t2],
          d1 @ d2 @ d3))"

definition periodSummary :: "metrics \<Rightarrow> cell list \<times> jsnum list" where
  "periodSummary m =
     (let (r, d1) = patternsPerOrder m;
          (t, d2) = formatTime (js_add (avg_pattern_making_time_hours m) (avg_approval_time_hours m))
      in ([RatioCell r, TimeCell t], d1 @ d2))"

definition renderNewDashboard :: "bool \<Rightarrow> metrics option \<Rightarrow> cell list \<times> jsnum list" where
  "renderNewDashboard loading ms =
     (let (cards, d1) =
            (if loading then (replicate 5 ShimmerCell, [])
             else (case ms of Some m \<Rightarrow> metricCards m | None \<Rightarrow> ([NoDataCell], [])));
          (summary, d2) = (case ms of Some m \<Rightarrow> periodSummary m | None \<Rightarrow> ([], []))
      in (cards @ summary, d1 @ d2))"

section \<open>Vocabulary of the claims about the order view\<close>

text \<open>
  The controls the permission claim lists: upload, approve and reject, and the two
  deletions.
\<close>

definition gated :: "control \<Rightarrow> bool" where
  "gated c = (case c of
      UploadInput stage slot \<Rightarrow> True
    | UploadButton stage slot \<Rightarrow> True
    | ApproveButton stage \<Rightarrow> True
    | RejectButton stage \<Rightarrow> True
    | DeletePatternButton stage slot \<Rightarrow> True
    | DeleteOrderButton \<Rightarrow> True
    | _ \<Rightarrow> False)"

text \<open>The badges of one stage.\<close>

definition is_badge_of :: "string \<Rightarrow> element \<Rightarrow> bool" where
  "is_badge_of stage x = (case x of
      DateBadge s t \<Rightarrow> s = stage
    | StatusBadge s v t \<Rightarrow> s = stage
    | _ \<Rightarrow> False)"

section \<open>Sample data\<close>

text \<open>Concrete users, orders and view states on which the theorems below are run.\<close>

definition checker :: user where
  "checker = \<lparr>u_id = ''u2'', u_name = ''Chen'', role = Some ''pattern_checker'', is_approved = True\<rparr>"

definition general :: user where
  "general = \<lparr>u_id = ''u3'', u_name = ''Gul'', role = Some ''general_user'', is_approved = True\<rparr>"

definition order1 :: order where
  "order1 = \<lparr>o_id = ''o1'', order_number = ''ORD-001'', created_at = Some 1000,
     initial_pattern_status = Some ''rejected'', initial_pattern_date = Some ''2024-05-01'',
     second_pattern_status = None, second_pattern_date = None,
     approved_pattern_status = None, approved_pattern_date = None\<rparr>"

definition detail1 :: "order \<Rightarrow> detail_state" where
  "detail1 ord = \<lparr>d_order = Some ord, d_patterns = patternsByStage [], d_chats = [],
     d_loading = False, d_selectedFiles = (\<lambda>k. None), d_quotedMessage = None,
     d_chatImagePreview = None\<rparr>"

definition pending :: user where
  "pending = \<lparr>u_id = ''u4'', u_name = ''Pia'', role = Some ''general_user'', is_approved = False\<rparr>"

definition fresh_order :: "string \<Rightarrow> int \<Rightarrow> order" where
  "fresh_order n t = \<lparr>o_id = n, order_number = n, created_at = Some t,
     initial_pattern_status = None, initial_pattern_date = None,
     second_pattern_status = None, second_pattern_date = None,
     approved_pattern_status = None, approved_pattern_date = None\<rparr>"

text \<open>A zone at a fixed offset of five and a half hours.\<close>

definition fixedZone :: "int \<Rightarrow> int" where
  "fixedZone t = 19800000"

definition metrics1 :: metrics where
  "metrics1 = \<lparr>total_orders = Fin 200, total_patterns = Fin 290, approved_patterns = Fin 29,
     avg_pattern_making_time_hours = Fin 30, avg_approval_time_hours = Fin 18\<rparr>"

section \<open>Properties\<close>

subsection \<open>What the order view can contain\<close>

lemma set_whenTruthy:
  "x \<in> set (whenTruthy v f) \<longleftrightarrow> (\<exists>s. v = Some s \<and> s \<noteq> [] \<and> x \<in> set (f s))"
  by (auto simp: whenTruthy_def split: option.splits)

lemma slotCard_ctl:
  "Ctl c d \<in> set (slotCard u st stage ps cu slot) \<Longrightarrow>
     \<not> d \<and> (c = DownloadButton stage slot
            \<or> (c = DeletePatternButton stage slot \<and> isAdmin u)
            \<or> ((c = UploadInput stage slot \<or> c = UploadButton stage slot) \<and> cu))"
  by (auto simp: slotCard_def set_whenTruthy split: option.splits if_splits)

lemma renderPatternSlots_ctl:
  "Ctl c d \<in> set (renderPatternSlots u st stage ps cu) \<Longrightarrow>
     \<not> d \<and> (\<exists>slot. c = DownloadButton stage slot
            \<or> (c = DeletePatternButton stage slot \<and> isAdmin u)
            \<or> ((c = UploadInput stage slot \<or> c = UploadButton stage slot) \<and> cu))"
proof -
  assume "Ctl c d \<in> set (renderPatternSlots u st stage ps cu)"
  then obtain slot where "Ctl c d \<in> set (slotCard u st stage ps cu slot)"
    unfolding renderPatternSlots_def by auto
  from slotCard_ctl [OF this] show ?thesis by blast
qed

lemma stageBadges_ctl: "Ctl c d \<notin> set (stageBadges stage date status)"
  by (auto simp: stageBadges_def set_whenTruthy)

lemma chatBubble_ctl: "Ctl c d \<in> set (chatBubble m) \<Longrightarrow> \<not> d \<and> c = ReplyButton (c_id m)"
  by (auto simp: chatBubble_def set_whenTruthy)

lemma chats_ctl: "Ctl c d \<in> set (concat (map chatBubble ms)) \<Longrightarrow> \<not> d \<and> (\<exists>cid. c = ReplyButton cid)"
  by (auto dest: chatBubble_ctl)

lemma chatForm_ctl:
  "Ctl c d \<in> set (chatForm u st) \<Longrightarrow>
     \<not> d \<and> (c = ClearQuoteButton \<or> c = ChatInput \<or> c = SendMessageButton
            \<or> ((c = ChatImageInput \<or> c = ClearChatImageButton) \<and> canUploadChatImage u))"
  by (auto simp: chatForm_def set_whenTruthy split: option.splits if_splits)

lemma renderOrderDetail_parts:
  "Ctl c d \<in> set (renderOrderDetail u st) \<Longrightarrow>
     \<not> d_loading st \<and>
     (Ctl c d = Ctl BackButton False
      \<or> (isAdmin u \<and> Ctl c d = Ctl DeleteOrderButton False)
      \<or> Ctl c d \<in> set (renderPatternSlots u st ''initial'' (initial (d_patterns st)) (canUploadInitial u))
      \<or> (canApprove u \<and> \<not> truthy (ofield initial_pattern_status (d_order st))
          \<and> (Ctl c d = Ctl (ApproveButton ''initial'') False \<or> Ctl c d = Ctl (RejectButton ''initial'') False))
      \<or> Ctl c d \<in> set (renderPatternSlots u st ''second'' (second (d_patterns st)) (canUploadSecondApproved u))
      \<or> (canApprove u \<and> \<not> truthy (ofield second_pattern_status (d_order st))
          \<and> (Ctl c d = Ctl (ApproveButton ''second'') (\<not> seq (ofield initial_pattern_status (d_order st)) ''rejected'')
              \<or> Ctl c d = Ctl (RejectButton ''second'') (\<not> seq (ofield initial_pattern_status (d_order st)) ''rejected'')))
      \<or> Ctl c d \<in> set (renderPatternSlots u st ''approved'' (approved (d_patterns st)) (canUploadSecondApproved u))
      \<or> Ctl c d \<in> set (concat (map chatBubble (d_chats st)))
      \<or> Ctl c d \<in> set (chatForm u st))"
  unfolding renderOrderDetail_def
  by (simp add: stageBadges_ctl split: if_splits; blast)



lemma count_list_filter:
  "count_list (filter P xs) x = (if P x then count_list xs x else 0)"
  by (induction xs) auto

text \<open>
  C7. The pattern list returned with the order data is split by the \<open>stage\<close> field
  into the three buckets initial, second and approved: a fetched pattern whose stage is
  one of these three values is in that bucket and in no other, a fetched pattern with any
  other stage (or none) is in no bucket, and the buckets hold nothing that was not
  fetched. Each bucket keeps the fetched order and multiplicity of its patterns.
\<close>

theorem patternsByStage_partition:
  "(p \<in> set (initial (patternsByStage pdata)) \<longleftrightarrow> p \<in> set pdata \<and> p_stage p = Some ''initial'')
   \<and> (p \<in> set (second (patternsByStage pdata)) \<longleftrightarrow> p \<in> set pdata \<and> p_stage p = Some ''second'')
   \<and> (p \<in> set (approved (patternsByStage pdata)) \<longleftrightarrow> p \<in> set pdata \<and> p_stage p = Some ''approved'')
   \<and> set (initial (patternsByStage pdata)) \<inter> set (second (patternsByStage pdata)) = {}
   \<and> set (initial (patternsByStage pdata)) \<inter> set (approved (patternsByStage pdata)) = {}
   \<and> set (second (patternsByStage pdata)) \<inter> set (approved (patternsByStage pdata)) = {}
   \<and> (p_stage p \<notin> {Some ''initial'', Some ''second'', Some ''approved''} \<longrightarrow>
        p \<notin> set (initial (patternsByStage pdata)) \<union> set (second (patternsByStage pdata))
              \<union> set (approved (patternsByStage pdata)))
   \<and> count_list (initial (patternsByStage pdata)) p
       + count_list (second (patternsByStage pdata)) p
       + count_list (approved (patternsByStage pdata)) p
       = (if p_stage p \<in> {Some ''initial'', Some ''second'', Some ''approved''}
          then count_list pdata p else 0)"
proof -
  show ?thesis
    unfolding patternsByStage_def
    by (auto simp: count_list_filter seq_def)
qed

theorem patternsByStage_partition_witness:
  "(let pdata = [\<lparr>p_id = ''a'', p_stage = Some ''second'', p_slot = 1, p_filename = ''f'', p_uploaded_at = ''t''\<rparr>,
                 \<lparr>p_id = ''b'', p_stage = Some ''draft'', p_slot = 2, p_filename = ''g'', p_uploaded_at = ''t''\<rparr>];
        p = \<lparr>p_id = ''b'', p_stage = Some ''draft'', p_slot = 2, p_filename = ''g'', p_uploaded_at = ''t''\<rparr>
    in p \<in> set pdata
       \<and> p_stage p \<notin> {Some ''initial'', Some ''second'', Some ''approved''}
       \<and> p \<notin> set (initial (patternsByStage pdata)) \<union> set (second (patternsByStage pdata))
              \<union> set (approved (patternsByStage pdata))
       \<and> map p_id (second (patternsByStage pdata)) = [''a''])"
  using patternsByStage_partition
    [of "\<lparr>p_id = ''b'', p_stage = Some ''draft'', p_slot = 2, p_filename = ''g'', p_uploaded_at = ''t''\<rparr>"
        "[\<lparr>p_id = ''a'', p_stage = Some ''second'', p_slot = 1, p_filename = ''f'', p_uploaded_at = ''t''\<rparr>,
          \<lparr>p_id = ''b'', p_stage = Some ''draft'', p_slot = 2, p_filename = ''g'', p_uploaded_at = ''t''\<rparr>]"]
  by (simp add: patternsByStage_def seq_def)

text \<open>
  C1. In the order view the approve and reject buttons of the second stage carry
  \<open>disabled = (order?.initial_pattern_status !== 'rejected')\<close>: wherever one of them
  is rendered it is enabled exactly when the initial status equals \<open>'rejected'\<close>, so for
  an absent status, \<open>'approved'\<close> or any other value both are disabled. They are rendered
  (for a user who may approve, while the second stage has no status) with that flag.
\<close>

theorem second_buttons_follow_initial_rejection:
  "(\<forall>c d. (c = ApproveButton ''second'' \<or> c = RejectButton ''second'')
        \<and> Ctl c d \<in> set (renderOrderDetail u st)
      \<longrightarrow> (\<not> d \<longleftrightarrow> ofield initial_pattern_status (d_order st) = Some ''rejected''))
   \<and> (\<not> d_loading st \<and> canApprove u \<and> \<not> truthy (ofield second_pattern_status (d_order st))
      \<longrightarrow> Ctl (ApproveButton ''second'')
            (ofield initial_pattern_status (d_order st) \<noteq> Some ''rejected'')
            \<in> set (renderOrderDetail u st)
        \<and> Ctl (RejectButton ''second'')
            (ofield initial_pattern_status (d_order st) \<noteq> Some ''rejected'')
            \<in> set (renderOrderDetail u st))"
proof (intro conjI allI impI)
  fix c d
  assume a: "(c = ApproveButton ''second'' \<or> c = RejectButton ''second'')
    \<and> Ctl c d \<in> set (renderOrderDetail u st)"
  then have c: "c = ApproveButton ''second'' \<or> c = RejectButton ''second''"
    and m: "Ctl c d \<in> set (renderOrderDetail u st)" by simp_all
  from renderOrderDetail_parts [OF m] c
  show "\<not> d \<longleftrightarrow> ofield initial_pattern_status (d_order st) = Some ''rejected''"
    by (auto simp: seq_def dest: renderPatternSlots_ctl chats_ctl chatBubble_ctl chatForm_ctl)
next
  assume "\<not> d_loading st \<and> canApprove u \<and> \<not> truthy (ofield second_pattern_status (d_order st))"
  then show "Ctl (ApproveButton ''second'')
            (ofield initial_pattern_status (d_order st) \<noteq> Some ''rejected'')
            \<in> set (renderOrderDetail u st)"
    by (simp add: renderOrderDetail_def seq_def)
next
  assume "\<not> d_loading st \<and> canApprove u \<and> \<not> truthy (ofield second_pattern_status (d_order st))"
  then show "Ctl (RejectButton ''second'')
            (ofield initial_pattern_status (d_order st) \<noteq> Some ''rejected'')
            \<in> set (renderOrderDetail u st)"
    by (simp add: renderOrderDetail_def seq_def)
qed

theorem second_buttons_follow_initial_rejection_witness:
  "Ctl (ApproveButton ''second'') False \<in> set (renderOrderDetail (Some checker) (detail1 order1))
   \<and> Ctl (RejectButton ''second'') False \<in> set (renderOrderDetail (Some checker) (detail1 order1))
   \<and> Ctl (ApproveButton ''second'') True
       \<in> set (renderOrderDetail (Some checker) (detail1 (order1\<lparr>initial_pattern_status := Some ''approved''\<rparr>)))
   \<and> Ctl (RejectButton ''second'') True
       \<in> set (renderOrderDetail (Some checker) (detail1 (order1\<lparr>initial_pattern_status := None\<rparr>)))"
  using second_buttons_follow_initial_rejection [of "Some checker" "detail1 order1"]
    second_buttons_follow_initial_rejection
      [of "Some checker" "detail1 (order1\<lparr>initial_pattern_status := Some ''approved''\<rparr>)"]
    second_buttons_follow_initial_rejection
      [of "Some checker" "detail1 (order1\<lparr>initial_pattern_status := None\<rparr>)"]
  by (simp add: checker_def detail1_def order1_def ofield_def truthy_def canApprove_def
      user_role_def seq_def)


lemma renderOrderDetail_ctl_role:
  assumes m: "Ctl c d \<in> set (renderOrderDetail u st)"
  shows "(c = UploadInput stage slot \<or> c = UploadButton stage slot \<longrightarrow>
            (stage = ''initial'' \<and> canUploadInitial u)
          \<or> ((stage = ''second'' \<or> stage = ''approved'') \<and> canUploadSecondApproved u))"
    and "(c = ApproveButton stage \<or> c = RejectButton stage \<longrightarrow> canApprove u)"
    and "(c = DeletePatternButton stage slot \<or> c = DeleteOrderButton \<longrightarrow> isAdmin u)"
  using renderOrderDetail_parts [OF m]
  by (auto dest: renderPatternSlots_ctl chatBubble_ctl chatForm_ctl)

text \<open>
  C4, as the source has it. Every upload, approve, reject and delete control that the
  order view renders is rendered for a permitted role only: upload controls of the initial
  stage for admin and pattern_maker; upload controls of the second and approved stages,
  and approve and reject, for admin and pattern_checker; pattern and order deletion for
  admin. For any other role none of these controls is rendered. A mutating control of the
  view is one of these or the send button of the chat form.
\<close>

theorem listed_controls_gated_by_role:
  assumes m: "Ctl c d \<in> set (renderOrderDetail u st)"
  shows "(\<forall>slot. c = UploadInput ''initial'' slot \<or> c = UploadButton ''initial'' slot \<longrightarrow>
            user_role u = Some ''admin'' \<or> user_role u = Some ''pattern_maker'')
       \<and> (\<forall>stage slot. (c = UploadInput stage slot \<or> c = UploadButton stage slot) \<and> stage \<noteq> ''initial'' \<longrightarrow>
            (stage = ''second'' \<or> stage = ''approved'')
            \<and> (user_role u = Some ''admin'' \<or> user_role u = Some ''pattern_checker''))
       \<and> (\<forall>stage. c = ApproveButton stage \<or> c = RejectButton stage \<longrightarrow>
            user_role u = Some ''admin'' \<or> user_role u = Some ''pattern_checker'')
       \<and> (\<forall>stage slot. c = DeletePatternButton stage slot \<or> c = DeleteOrderButton \<longrightarrow>
            user_role u = Some ''admin'')
       \<and> (gated c \<longrightarrow> user_role u = Some ''admin'' \<or> user_role u = Some ''pattern_maker''
            \<or> user_role u = Some ''pattern_checker'')
       \<and> (mutating c \<longrightarrow> gated c \<or> c = SendMessageButton)"
proof -
  note r = renderOrderDetail_ctl_role [OF m]
  have 1: "\<forall>slot. c = UploadInput ''initial'' slot \<or> c = UploadButton ''initial'' slot \<longrightarrow>
            user_role u = Some ''admin'' \<or> user_role u = Some ''pattern_maker''"
    using r(1) by (auto simp: canUploadInitial_def seq_def)
  have 2: "\<forall>stage slot. (c = UploadInput stage slot \<or> c = UploadButton stage slot) \<and> stage \<noteq> ''initial'' \<longrightarrow>
            (stage = ''second'' \<or> stage = ''approved'')
            \<and> (user_role u = Some ''admin'' \<or> user_role u = Some ''pattern_checker'')"
    using r(1) by (auto simp: canUploadSecondApproved_def seq_def)
  have 3: "\<forall>stage. c = ApproveButton stage \<or> c = RejectButton stage \<longrightarrow>
            user_role u = Some ''admin'' \<or> user_role u = Some ''pattern_checker''"
    using r(2) by (auto simp: canApprove_def seq_def)
  have 4: "\<forall>stage slot. c = DeletePatternButton stage slot \<or> c = DeleteOrderButton \<longrightarrow>
            user_role u = Some ''admin''"
    using r(3) by (auto simp: isAdmin_def seq_def)
  have 5: "gated c \<longrightarrow> user_role u = Some ''admin'' \<or> user_role u = Some ''pattern_maker''
            \<or> user_role u = Some ''pattern_checker''"
    using r by (cases c) (auto simp: gated_def canUploadInitial_def canUploadSecondApproved_def
        canApprove_def isAdmin_def seq_def)
  have 6: "mutating c \<longrightarrow> gated c \<or> c = SendMessageButton"
    by (cases c) (auto simp: mutating_def gated_def)
  from 1 2 3 4 5 6 show ?thesis by blast
qed

theorem listed_controls_gated_by_role_witness:
  "Ctl (UploadButton ''second'' 1) False \<in> set (renderOrderDetail (Some checker) (detail1 order1))
   \<and> gated (UploadButton ''second'' 1) \<and> mutating (UploadButton ''second'' 1)
   \<and> ''second'' \<noteq> ''initial''
   \<and> user_role (Some checker) = Some ''pattern_checker''"
proof -
  have m: "Ctl (UploadButton ''second'' 1) False \<in> set (renderOrderDetail (Some checker) (detail1 order1))"
    by (simp add: renderOrderDetail_def renderPatternSlots_def slotCard_def detail1_def
        patternsByStage_def canUploadSecondApproved_def user_role_def checker_def seq_def
        whenTruthy_def)
  from listed_controls_gated_by_role [OF m] m show ?thesis
    by (simp add: gated_def mutating_def user_role_def checker_def)
qed

text \<open>
  C4 as stated fails: the chat form's send button posts a message, and the view renders
  it for a general user, who has none of the permissions.
\<close>

theorem send_message_not_gated:
  "Ctl SendMessageButton False \<in> set (renderOrderDetail (Some general) (detail1 order1))
   \<and> mutating SendMessageButton
   \<and> user_role (Some general) = Some ''general_user''
   \<and> \<not> canUploadInitial (Some general) \<and> \<not> canUploadSecondApproved (Some general)
   \<and> \<not> canApprove (Some general) \<and> \<not> isAdmin (Some general)"
  by (simp add: renderOrderDetail_def chatForm_def detail1_def mutating_def general_def
      user_role_def canUploadInitial_def canUploadSecondApproved_def canApprove_def isAdmin_def
      canUploadChatImage_def seq_def whenTruthy_def)


lemma filter_empty_if_ctl_txt:
  "(\<And>x. x \<in> set xs \<Longrightarrow> (\<exists>c d. x = Ctl c d) \<or> (\<exists>t. x = Txt t)) \<Longrightarrow>
     filter (is_badge_of stage) xs = []"
  unfolding filter_empty_conv
proof
  fix x assume h: "\<And>x. x \<in> set xs \<Longrightarrow> (\<exists>c d. x = Ctl c d) \<or> (\<exists>t. x = Txt t)"
    and x: "x \<in> set xs"
  from h [OF x] show "\<not> is_badge_of stage x" by (auto simp: is_badge_of_def)
qed

lemma slotCard_no_badge: "filter (is_badge_of stage) (slotCard u st sg ps cu slot) = []"
  by (rule filter_empty_if_ctl_txt)
     (auto simp: slotCard_def set_whenTruthy split: option.splits if_splits)

lemma renderPatternSlots_no_badge:
  "filter (is_badge_of stage) (renderPatternSlots u st sg ps cu) = []"
  by (simp add: renderPatternSlots_def slotCard_no_badge)

lemma chatBubble_no_badge: "filter (is_badge_of stage) (chatBubble m) = []"
  by (rule filter_empty_if_ctl_txt) (auto simp: chatBubble_def set_whenTruthy)

lemma chats_no_badge: "filter (is_badge_of stage) (concat (map chatBubble ms)) = []"
  by (induction ms) (simp_all add: chatBubble_no_badge)

lemma chatForm_no_badge: "filter (is_badge_of stage) (chatForm u st) = []"
  by (rule filter_empty_if_ctl_txt)
     (auto simp: chatForm_def set_whenTruthy split: option.splits if_splits)

lemma stageBadges_filter:
  "filter (is_badge_of stage) (stageBadges sg date status)
     = (if sg = stage then stageBadges sg date status else [])"
  by (auto simp: stageBadges_def whenTruthy_def is_badge_of_def split: option.splits)

lemma renderOrderDetail_badges:
  "\<not> d_loading st \<Longrightarrow>
     filter (is_badge_of stage) (renderOrderDetail u st)
       = filter (is_badge_of stage)
           (stageBadges ''initial'' (ofield initial_pattern_date (d_order st))
              (ofield initial_pattern_status (d_order st))
            @ stageBadges ''second'' (ofield second_pattern_date (d_order st))
              (ofield second_pattern_status (d_order st))
            @ stageBadges ''approved'' (ofield approved_pattern_date (d_order st))
              (ofield approved_pattern_status (d_order st)))"
  by (simp add: renderOrderDetail_def renderPatternSlots_no_badge chats_no_badge
      chatForm_no_badge is_badge_of_def)

lemma badge_in_filter:
  "DateBadge stage t \<in> set xs \<longleftrightarrow> DateBadge stage t \<in> set (filter (is_badge_of stage) xs)"
  "StatusBadge stage v t \<in> set xs \<longleftrightarrow> StatusBadge stage v t \<in> set (filter (is_badge_of stage) xs)"
  by (auto simp: is_badge_of_def)

lemma stageBadges_status_iff:
  "(\<exists>v t. StatusBadge stage v t \<in> set (stageBadges stage date status)) \<longleftrightarrow> truthy status"
  by (auto simp: stageBadges_def set_whenTruthy truthy_def split: option.splits)

lemma stageBadges_date_iff:
  "(\<exists>t. DateBadge stage t \<in> set (stageBadges stage date status)) \<longleftrightarrow> truthy date"
  by (auto simp: stageBadges_def set_whenTruthy truthy_def split: option.splits)

lemma truthy_iff: "truthy v \<longleftrightarrow> (\<exists>s. v = Some s \<and> s \<noteq> [])"
  by (auto simp: truthy_def split: option.splits)

text \<open>
  C6, as the source has it. For a loaded order each stage card shows its status badge
  exactly when that stage's status field is truthy, that is present and not the empty
  string, and its date badge exactly when that stage's date field is truthy; the badges of
  a stage are a function of that stage's own two fields: they are what \<open>stageBadges\<close>
  makes of them, whatever the other stages, the user, the patterns and the chat hold.
\<close>

theorem stage_badges_follow_own_fields:
  assumes l: "\<not> d_loading st" and o: "d_order st = Some ord"
  shows "((\<exists>v t. StatusBadge ''initial'' v t \<in> set (renderOrderDetail u st))
            \<longleftrightarrow> (\<exists>s. initial_pattern_status ord = Some s \<and> s \<noteq> []))
       \<and> ((\<exists>t. DateBadge ''initial'' t \<in> set (renderOrderDetail u st))
            \<longleftrightarrow> (\<exists>s. initial_pattern_date ord = Some s \<and> s \<noteq> []))
       \<and> ((\<exists>v t. StatusBadge ''second'' v t \<in> set (renderOrderDetail u st))
            \<longleftrightarrow> (\<exists>s. second_pattern_status ord = Some s \<and> s \<noteq> []))
       \<and> ((\<exists>t. DateBadge ''second'' t \<in> set (renderOrderDetail u st))
            \<longleftrightarrow> (\<exists>s. second_pattern_date ord = Some s \<and> s \<noteq> []))
       \<and> ((\<exists>v t. StatusBadge ''approved'' v t \<in> set (renderOrderDetail u st))
            \<longleftrightarrow> (\<exists>s. approved_pattern_status ord = Some s \<and> s \<noteq> []))
       \<and> ((\<exists>t. DateBadge ''approved'' t \<in> set (renderOrderDetail u st))
            \<longleftrightarrow> (\<exists>s. approved_pattern_date ord = Some s \<and> s \<noteq> []))
       \<and> filter (is_badge_of ''initial'') (renderOrderDetail u st)
           = stageBadges ''initial'' (initial_pattern_date ord) (initial_pattern_status ord)
       \<and> filter (is_badge_of ''second'') (renderOrderDetail u st)
           = stageBadges ''second'' (second_pattern_date ord) (second_pattern_status ord)
       \<and> filter (is_badge_of ''approved'') (renderOrderDetail u st)
           = stageBadges ''approved'' (approved_pattern_date ord) (approved_pattern_status ord)"
proof -
  have i: "filter (is_badge_of ''initial'') (renderOrderDetail u st)
           = stageBadges ''initial'' (initial_pattern_date ord) (initial_pattern_status ord)"
    using l o by (simp add: renderOrderDetail_badges stageBadges_filter ofield_def)
  have s: "filter (is_badge_of ''second'') (renderOrderDetail u st)
           = stageBadges ''second'' (second_pattern_date ord) (second_pattern_status ord)"
    using l o by (simp add: renderOrderDetail_badges stageBadges_filter ofield_def)
  have a: "filter (is_badge_of ''approved'') (renderOrderDetail u st)
           = stageBadges ''approved'' (approved_pattern_date ord) (approved_pattern_status ord)"
    using l o by (simp add: renderOrderDetail_badges stageBadges_filter ofield_def)
  have 1: "(\<exists>v t. StatusBadge ''initial'' v t \<in> set (renderOrderDetail u st))
            \<longleftrightarrow> (\<exists>s. initial_pattern_status ord = Some s \<and> s \<noteq> [])"
    by (subst badge_in_filter(2)) (simp only: i stageBadges_status_iff truthy_iff)
  have 2: "(\<exists>t. DateBadge ''initial'' t \<in> set (renderOrderDetail u st))
            \<longleftrightarrow> (\<exists>s. initial_pattern_date ord = Some s \<and> s \<noteq> [])"
    by (subst badge_in_filter(1)) (simp only: i stageBadges_date_iff truthy_iff)
  have 3: "(\<exists>v t. StatusBadge ''second'' v t \<in> set (renderOrderDetail u st))
            \<longleftrightarrow> (\<exists>s. second_pattern_status ord = Some s \<and> s \<noteq> [])"
    by (subst badge_in_filter(2)) (simp only: s stageBadges_status_iff truthy_iff)
  have 4: "(\<exists>t. DateBadge ''second'' t \<in> set (renderOrderDetail u st))
            \<longleftrightarrow> (\<exists>s. second_pattern_date ord = Some s \<and> s \<noteq> [])"
    by (subst badge_in_filter(1)) (simp only: s stageBadges_date_iff truthy_iff)
  have 5: "(\<exists>v t. StatusBadge ''approved'' v t \<in> set (renderOrderDetail u st))
            \<longleftrightarrow> (\<exists>s. approved_pattern_status ord = Some s \<and> s \<noteq> [])"
    by (subst badge_in_filter(2)) (simp only: a stageBadges_status_iff truthy_iff)
  have 6: "(\<exists>t. DateBadge ''approved'' t \<in> set (renderOrderDetail u st))
            \<longleftrightarrow> (\<exists>s. approved_pattern_date ord = Some s \<and> s \<noteq> [])"
    by (subst badge_in_filter(1)) (simp only: a stageBadges_date_iff truthy_iff)
  from 1 2 3 4 5 6 i s a show ?thesis by blast
qed

theorem stage_badges_follow_own_fields_witness:
  "\<not> d_loading (detail1 order1) \<and> d_order (detail1 order1) = Some order1
   \<and> StatusBadge ''initial'' ''destructive'' ''rejected''
        \<in> set (renderOrderDetail (Some checker) (detail1 order1))
   \<and> DateBadge ''initial'' ''2024-05-01'' \<in> set (renderOrderDetail (Some checker) (detail1 order1))
   \<and> filter (is_badge_of ''second'') (renderOrderDetail (Some checker) (detail1 order1)) = []
   \<and> filter (is_badge_of ''approved'') (renderOrderDetail (Some checker) (detail1 order1)) = []"
proof -
  have l: "\<not> d_loading (detail1 order1)" and o: "d_order (detail1 order1) = Some order1"
    by (simp_all add: detail1_def)
  have i: "StatusBadge ''initial'' ''destructive'' ''rejected''
        \<in> set (filter (is_badge_of ''initial'') (renderOrderDetail (Some checker) (detail1 order1)))"
    "DateBadge ''initial'' ''2024-05-01''
        \<in> set (filter (is_badge_of ''initial'') (renderOrderDetail (Some checker) (detail1 order1)))"
    using stage_badges_follow_own_fields [OF l o, of "Some checker"]
    by (simp_all add: stageBadges_def whenTruthy_def order1_def)
  from i l o stage_badges_follow_own_fields [OF l o, of "Some checker"]
  show ?thesis
    by (simp add: stageBadges_def whenTruthy_def order1_def)
qed

text \<open>
  C6 as stated fails: an order whose initial status is the empty string has the field
  present, and its initial stage card shows the date badge only.
\<close>

theorem empty_status_has_no_badge:
  "\<not> d_loading (detail1 (order1\<lparr>initial_pattern_status := Some ''''\<rparr>))
   \<and> d_order (detail1 (order1\<lparr>initial_pattern_status := Some ''''\<rparr>))
       = Some (order1\<lparr>initial_pattern_status := Some ''''\<rparr>)
   \<and> initial_pattern_status (order1\<lparr>initial_pattern_status := Some ''''\<rparr>) \<noteq> None
   \<and> filter (is_badge_of ''initial'')
        (renderOrderDetail (Some checker) (detail1 (order1\<lparr>initial_pattern_status := Some ''''\<rparr>)))
       = [DateBadge ''initial'' ''2024-05-01'']"
  by (simp add: renderOrderDetail_badges stageBadges_filter detail1_def order1_def ofield_def
      stageBadges_def whenTruthy_def is_badge_of_def)

subsection \<open>Error paths of the API calls\<close>

text \<open>
  C2, as the source has it. When a request that a handler sent with axios fails, the
  handler's \<open>catch\<close> and \<open>finally\<close> blocks call no handler again (no retry, no
  backoff), and they show exactly one error toast, except on the two silent paths: the
  chat poll \<open>fetchChats\<close> does nothing at all on any error, and the order list fetch of
  Dashboard and of Orders shows nothing on a 403 and sets its order list to the empty list
  (then \<open>loading\<close> to false). The chat images, which an \<open>img\<close> element loads, are no
  handler's call and not covered.
\<close>

theorem api_errors_toast_unless_silent:
  "calls (settle h (Rejected e)) = []
   \<and> (if silent h e then toastErrors (settle h (Rejected e)) = []
      else \<exists>m. toastErrors (settle h (Rejected e)) = [m])
   \<and> settle OrderDetail_fetchChats (Rejected e) = []
   \<and> (e_status e = Some 403 \<longrightarrow>
        settle Dashboard_fetchOrders (Rejected e)
          = [SetState ''orders'' EmptyList, SetState ''loading'' FalseLit]
        \<and> orders_after ''orders'' data (settle Dashboard_fetchOrders (Rejected e)) cur = []
        \<and> settle Orders_fetchOrders (Rejected e)
          = [SetState ''allOrders'' EmptyList, SetState ''loading'' FalseLit]
        \<and> orders_after ''allOrders'' data (settle Orders_fetchOrders (Rejected e)) cur = [])"
proof -
  have 1: "calls (settle h (Rejected e)) = []
     \<and> (if silent h e then toastErrors (settle h (Rejected e)) = []
        else \<exists>m. toastErrors (settle h (Rejected e)) = [m])"
    by (cases h) (simp_all add: settle_def calls_def toastErrors_def silent_def)
  have 2: "settle OrderDetail_fetchChats (Rejected e) = []"
    by (simp add: settle_def)
  have 3: "e_status e = Some 403 \<longrightarrow>
        settle Dashboard_fetchOrders (Rejected e)
          = [SetState ''orders'' EmptyList, SetState ''loading'' FalseLit]
        \<and> orders_after ''orders'' data (settle Dashboard_fetchOrders (Rejected e)) cur = []
        \<and> settle Orders_fetchOrders (Rejected e)
          = [SetState ''allOrders'' EmptyList, SetState ''loading'' FalseLit]
        \<and> orders_after ''allOrders'' data (settle Orders_fetchOrders (Rejected e)) cur = []"
    by (simp add: settle_def orders_after_def)
  from 1 2 3 show ?thesis by blast
qed

theorem api_errors_toast_unless_silent_witness:
  "\<not> silent OrderDetail_handleFileUpload \<lparr>e_status = Some 413, e_detail = Some ''File too large''\<rparr>
   \<and> toastErrors (settle OrderDetail_handleFileUpload
        (Rejected \<lparr>e_status = Some 413, e_detail = Some ''File too large''\<rparr>)) = [''File too large'']
   \<and> calls (settle OrderDetail_handleFileUpload
        (Rejected \<lparr>e_status = Some 413, e_detail = Some ''File too large''\<rparr>)) = []
   \<and> e_status \<lparr>e_status = Some 403, e_detail = None\<rparr> = Some 403
   \<and> orders_after ''orders'' [] (settle Dashboard_fetchOrders
        (Rejected \<lparr>e_status = Some 403, e_detail = None\<rparr>)) [order1] = []
   \<and> orders_after ''allOrders'' [] (settle Orders_fetchOrders
        (Rejected \<lparr>e_status = Some 403, e_detail = None\<rparr>)) [order1] = []
   \<and> orders_after ''orders'' [] (settle Dashboard_fetchOrders
        (Rejected \<lparr>e_status = Some 500, e_detail = None\<rparr>)) [order1] = [order1]"
proof -
  have s: "orders_after ''orders'' [] (settle Dashboard_fetchOrders
        (Rejected \<lparr>e_status = Some 500, e_detail = None\<rparr>)) [order1] = [order1]"
    by (simp add: settle_def orders_after_def)
  from s api_errors_toast_unless_silent
      [of OrderDetail_handleFileUpload "\<lparr>e_status = Some 413, e_detail = Some ''File too large''\<rparr>"]
    api_errors_toast_unless_silent
      [of Dashboard_fetchOrders "\<lparr>e_status = Some 403, e_detail = None\<rparr>" "[]" "[order1]"]
  show ?thesis
    by (simp add: silent_def settle_def toastErrors_def orElse_def)
qed

text \<open>
  C2 as stated fails: a failed chat poll and a 403 on the order list are caught but not
  shown.
\<close>

theorem silent_api_errors:
  "toastErrors (settle OrderDetail_fetchChats (Rejected \<lparr>e_status = Some 500, e_detail = None\<rparr>)) = []
   \<and> toastErrors (settle Dashboard_fetchOrders (Rejected \<lparr>e_status = Some 403, e_detail = Some ''Not approved''\<rparr>)) = []"
  by (simp add: settle_def toastErrors_def)

subsection \<open>The chat poll\<close>

lemma poll_inv_unmounted: "poll_inv unmounted"
  by (simp add: poll_inv_def unmounted_def)

lemma timers_orderEffect:
  "timers rt = [] \<Longrightarrow> timers (orderEffect rt) = [chatPoll (next_timer rt)]
     \<and> cleanup (orderEffect rt) = Some (next_timer rt)"
  by (simp add: orderEffect_def setInterval_def issue_def chatPoll_def Let_def)

lemma poll_inv_orderEffect: "timers rt = [] \<Longrightarrow> poll_inv (orderEffect rt)"
  by (simp add: poll_inv_def timers_orderEffect)

lemma timers_runCleanup: "poll_inv rt \<Longrightarrow> timers (runCleanup rt) = [] \<and> cleanup (runCleanup rt) = None"
  by (auto simp: poll_inv_def runCleanup_def clearInterval_def chatPoll_def split: option.splits)

lemma poll_inv_step: "poll_inv rt \<Longrightarrow> poll_inv (step e rt)"
proof (cases e)
  case Mount
  assume i: "poll_inv rt"
  show ?thesis
  proof (cases "cleanup rt")
    case None
    with i have "timers rt = []" by (simp add: poll_inv_def)
    with Mount None show ?thesis by (simp add: poll_inv_orderEffect)
  next
    case (Some j)
    with Mount i show ?thesis by simp
  qed
next
  case Unmount
  assume "poll_inv rt" with Unmount timers_runCleanup [of rt] show ?thesis
    by (simp add: poll_inv_def)
next
  case OrderIdChanged
  assume "poll_inv rt" with OrderIdChanged timers_runCleanup [of rt] show ?thesis
    by (simp add: poll_inv_orderEffect)
next
  case (Tick i)
  assume "poll_inv rt" with Tick show ?thesis
    by (simp add: poll_inv_def issue_def split: option.splits)
next
  case (Settled k)
  assume "poll_inv rt" with Settled show ?thesis
    by (simp add: poll_inv_def split: option.splits)
qed

lemma poll_inv_fold: "poll_inv rt \<Longrightarrow> poll_inv (fold step es rt)"
  by (induction es arbitrary: rt) (simp_all add: poll_inv_step)

lemma poll_inv_run: "poll_inv (run es)"
  by (simp add: run_def poll_inv_fold poll_inv_unmounted)


text \<open>
  C5. Whatever sequence of mounts, unmounts, route changes, interval firings and settled
  requests the view goes through, every interval registered for it is the chat poll
  (3000 ms, calling \<open>fetchChats\<close>), there is at most one, and there is none while the
  view is unmounted. Mounting an unmounted view registers it; unmounting changes nothing
  but the interval and the cleanup closure, so the pending requests stay pending; a firing
  of the poll sends one more chat request whatever is pending already.
\<close>

theorem chat_poll_is_the_only_timer:
  "(\<forall>t \<in> set (timers (run es)). t_period t = 3000 \<and> t_callback t = OrderDetail_fetchChats)
   \<and> length (timers (run es)) \<le> 1
   \<and> (cleanup (run es) = None \<longleftrightarrow> timers (run es) = [])
   \<and> (cleanup (run es) = None \<longrightarrow> timers (step Mount (run es)) = [chatPoll (next_timer (run es))])
   \<and> step Unmount (run es) = (run es)\<lparr>timers := [], cleanup := None\<rparr>
   \<and> (\<forall>t \<in> set (timers (run es)).
        step (Tick (t_id t)) (run es)
          = (run es)\<lparr>inflight := inflight (run es) @ [OrderDetail_fetchChats]\<rparr>)"
proof -
  have i: "poll_inv (run es)" by (rule poll_inv_run)
  show ?thesis
  proof (cases "cleanup (run es)")
    case None
    with i have t: "timers (run es) = []" by (simp add: poll_inv_def)
    with None timers_orderEffect [OF t] show ?thesis by (simp add: runCleanup_def)
  next
    case (Some j)
    with i have t: "timers (run es) = [chatPoll j]" by (simp add: poll_inv_def)
    with Some show ?thesis
      by (simp add: runCleanup_def clearInterval_def chatPoll_def issue_def)
  qed
qed


theorem chat_poll_is_the_only_timer_witness:
  "timers (run [Mount, Tick 0, Unmount, Mount]) = [chatPoll 1]
   \<and> chatPoll 1 \<in> set (timers (run [Mount, Tick 0, Unmount, Mount]))
   \<and> t_period (chatPoll 1) = 3000
   \<and> inflight (run [Mount, Tick 0]) =
       [OrderDetail_fetchOrderData, OrderDetail_fetchOrderData, OrderDetail_fetchOrderData,
        OrderDetail_fetchChats]
   \<and> cleanup (run [Mount, Tick 0, Unmount]) = None
   \<and> timers (step Mount (run [Mount, Tick 0, Unmount])) = [chatPoll 1]
   \<and> inflight (step Unmount (run [Mount, Tick 0])) = inflight (run [Mount, Tick 0])"
proof -
  have r1: "run [Mount, Tick 0] =
      \<lparr>timers = [chatPoll 0],
       inflight = [OrderDetail_fetchOrderData, OrderDetail_fetchOrderData,
         OrderDetail_fetchOrderData, OrderDetail_fetchChats],
       next_timer = 1, cleanup = Some 0\<rparr>"
    by (simp add: run_def unmounted_def orderEffect_def setInterval_def issue_def chatPoll_def)
  have r2: "run [Mount, Tick 0, Unmount] = (run [Mount, Tick 0])\<lparr>timers := [], cleanup := None\<rparr>"
    using chat_poll_is_the_only_timer [of "[Mount, Tick 0]"] by (simp add: run_def)
  have r3: "run [Mount, Tick 0, Unmount, Mount] = step Mount (run [Mount, Tick 0, Unmount])"
    by (simp add: run_def)
  have c: "cleanup (run [Mount, Tick 0, Unmount]) = None"
    by (simp add: r2)
  have n: "next_timer (run [Mount, Tick 0, Unmount]) = 1"
    by (simp add: r2 r1)
  from chat_poll_is_the_only_timer [of "[Mount, Tick 0, Unmount]"] c n
  have t: "timers (step Mount (run [Mount, Tick 0, Unmount])) = [chatPoll 1]"
    by simp
  have u: "inflight (step Unmount (run [Mount, Tick 0])) = inflight (run [Mount, Tick 0])"
    using chat_poll_is_the_only_timer [of "[Mount, Tick 0]"] by simp
  have i: "inflight (run [Mount, Tick 0]) =
       [OrderDetail_fetchOrderData, OrderDetail_fetchOrderData, OrderDetail_fetchOrderData,
        OrderDetail_fetchChats]"
    by (simp add: r1)
  have p: "t_period (chatPoll 1) = 3000"
    by (simp add: chatPoll_def)
  from t r3 have t4: "timers (run [Mount, Tick 0, Unmount, Mount]) = [chatPoll 1]"
    by simp
  then have m: "chatPoll 1 \<in> set (timers (run [Mount, Tick 0, Unmount, Mount]))"
    by simp
  from t4 m p i c t u show ?thesis
    by blast
qed

subsection \<open>The filter of the Orders page\<close>

lemma setDate_getDate_minus_eq:
  "setDate_getDate_minus utcOffset localOffset tv n
     = tv + utcOffset tv - n * 86400000 - localOffset (tv + utcOffset tv - n * 86400000)"
proof -
  have "MakeDate (Day t - n) (TimeWithinDay t) = t - n * 86400000" for t
    by (simp add: MakeDate_def Day_def TimeWithinDay_def msPerDay_def algebra_simps)
  then show ?thesis
    by (simp add: setDate_getDate_minus_def LocalTime_def UTC_def Let_def)
qed

lemma onOrAfter_iff: "onOrAfter c ord \<longleftrightarrow> (\<exists>t. created_at ord = Some t \<and> c \<le> t)"
  by (auto simp: onOrAfter_def split: option.splits)

lemma falsy_iff: "\<not> truthy v \<longleftrightarrow> v = None \<or> v = Some []"
  by (auto simp: truthy_def split: option.splits)

text \<open>
  C3, as the source has it. The list the Orders page shows is computed from the fetched
  orders alone (with the two selected filters, the current time and the time zone): it is
  the fetched list filtered, in order, hence a subset. The date filter keeps exactly the
  orders whose \<open>created_at\<close> is a valid date on or after the cutoff, which is now moved
  back by the selected number of days in local time: exactly that many times 24 hours
  before now unless the zone's offset changes in between. \<open>'approved'\<close> keeps exactly the
  orders whose approved status is \<open>'approved'\<close>, \<open>'rejected'\<close> exactly those with at
  least one stage status \<open>'rejected'\<close>, \<open>'no_action'\<close> exactly those whose three stage
  statuses are all falsy (absent or the empty string), and \<open>'all'\<close>, like any other
  value, applies no status filter.
\<close>

theorem applyFilters_meets_spec:
  "applyFilters utcOffset localOffset now allOrders statusFilter dateFilter
           = filter (\<lambda>ord. (\<exists>t. created_at ord = Some t
                      \<and> now + utcOffset now - dateFilter * 86400000
                      - localOffset (now + utcOffset now - dateFilter * 86400000) \<le> t)
                 \<and> (if statusFilter = ''approved'' then approved_pattern_status ord = Some ''approved''
                   else if statusFilter = ''rejected'' then
                     initial_pattern_status ord = Some ''rejected''
                     \<or> second_pattern_status ord = Some ''rejected''
                     \<or> approved_pattern_status ord = Some ''rejected''
                   else if statusFilter = ''no_action'' then
                     (initial_pattern_status ord = None \<or> initial_pattern_status ord = Some [])
                     \<and> (second_pattern_status ord = None \<or> second_pattern_status ord = Some [])
                     \<and> (approved_pattern_status ord = None \<or> approved_pattern_status ord = Some [])
                   else True)) allOrders
   \<and> set (applyFilters utcOffset localOffset now allOrders statusFilter dateFilter) \<subseteq> set allOrders
   \<and> (localOffset (now + utcOffset now - dateFilter * 86400000) = utcOffset now \<longrightarrow>
        setDate_getDate_minus utcOffset localOffset now dateFilter = now - dateFilter * 86400000)"
proof -
  let ?c = "setDate_getDate_minus utcOffset localOffset now dateFilter"
  have c: "?c = now + utcOffset now - dateFilter * 86400000
                      - localOffset (now + utcOffset now - dateFilter * 86400000)"
    by (rule setDate_getDate_minus_eq)
  have eq0: "applyFilters utcOffset localOffset now allOrders statusFilter dateFilter
           = filter (\<lambda>ord. onOrAfter ?c ord
                 \<and> (if statusFilter = ''approved'' then approved_pattern_status ord = Some ''approved''
                   else if statusFilter = ''rejected'' then
                     initial_pattern_status ord = Some ''rejected''
                     \<or> second_pattern_status ord = Some ''rejected''
                     \<or> approved_pattern_status ord = Some ''rejected''
                   else if statusFilter = ''no_action'' then
                     (initial_pattern_status ord = None \<or> initial_pattern_status ord = Some [])
                     \<and> (second_pattern_status ord = None \<or> second_pattern_status ord = Some [])
                     \<and> (approved_pattern_status ord = None \<or> approved_pattern_status ord = Some [])
                   else True)) allOrders"
  proof (cases "statusFilter = ''approved''")
    case True
    then show ?thesis
      by (simp add: applyFilters_def seq_def conj_commute)
  next
    case na: False
    show ?thesis
    proof (cases "statusFilter = ''rejected''")
      case True
      then show ?thesis
        by (simp add: applyFilters_def seq_def conj_commute)
    next
      case nr: False
      show ?thesis
      proof (cases "statusFilter = ''no_action''")
        case True
        then show ?thesis
          by (simp add: applyFilters_def falsy_iff conj_commute)
      next
        case False
        with na nr show ?thesis
          by (simp add: applyFilters_def)
      qed
    qed
  qed
  have eq: "applyFilters utcOffset localOffset now allOrders statusFilter dateFilter
           = filter (\<lambda>ord. (\<exists>t. created_at ord = Some t
                      \<and> now + utcOffset now - dateFilter * 86400000
                      - localOffset (now + utcOffset now - dateFilter * 86400000) \<le> t)
                 \<and> (if statusFilter = ''approved'' then approved_pattern_status ord = Some ''approved''
                   else if statusFilter = ''rejected'' then
                     initial_pattern_status ord = Some ''rejected''
                     \<or> second_pattern_status ord = Some ''rejected''
                     \<or> approved_pattern_status ord = Some ''rejected''
                   else if statusFilter = ''no_action'' then
                     (initial_pattern_status ord = None \<or> initial_pattern_status ord = Some [])
                     \<and> (second_pattern_status ord = None \<or> second_pattern_status ord = Some [])
                     \<and> (approved_pattern_status ord = None \<or> approved_pattern_status ord = Some [])
                   else True)) allOrders"
    unfolding eq0 onOrAfter_iff c ..
  have sub: "set (applyFilters utcOffset localOffset now allOrders statusFilter dateFilter) \<subseteq> set allOrders"
    unfolding eq0 by auto
  have fixed: "localOffset (now + utcOffset now - dateFilter * 86400000) = utcOffset now \<longrightarrow>
        setDate_getDate_minus utcOffset localOffset now dateFilter = now - dateFilter * 86400000"
    by (simp add: setDate_getDate_minus_eq)
  from eq sub fixed show ?thesis by blast
qed

theorem applyFilters_meets_spec_witness:
  "fixedZone (864000000 + fixedZone 864000000 - 7 * 86400000) = fixedZone 864000000
   \<and> setDate_getDate_minus fixedZone fixedZone 864000000 7 = 259200000
   \<and> applyFilters fixedZone fixedZone 864000000
        [fresh_order ''A'' 259200000, fresh_order ''B'' 259199999,
         (fresh_order ''C'' 0)\<lparr>created_at := None\<rparr>,
         (fresh_order ''D'' 518400000)\<lparr>approved_pattern_status := Some ''approved''\<rparr>,
         (fresh_order ''E'' 518400000)\<lparr>initial_pattern_status := Some []\<rparr>]
        ''no_action'' 7
      = [fresh_order ''A'' 259200000,
         (fresh_order ''E'' 518400000)\<lparr>initial_pattern_status := Some []\<rparr>]
   \<and> applyFilters fixedZone fixedZone 864000000
        [fresh_order ''A'' 259200000, fresh_order ''B'' 259199999,
         (fresh_order ''C'' 0)\<lparr>created_at := None\<rparr>,
         (fresh_order ''D'' 518400000)\<lparr>approved_pattern_status := Some ''approved''\<rparr>,
         (fresh_order ''E'' 518400000)\<lparr>initial_pattern_status := Some []\<rparr>]
        ''approved'' 7
      = [(fresh_order ''D'' 518400000)\<lparr>approved_pattern_status := Some ''approved''\<rparr>]"
proof -
  have z: "fixedZone (864000000 + fixedZone 864000000 - 7 * 86400000) = fixedZone 864000000"
    by (simp add: fixedZone_def)
  from z applyFilters_meets_spec [of fixedZone fixedZone 864000000 _ "''no_action''" 7]
    applyFilters_meets_spec [of fixedZone fixedZone 864000000 _ "''approved''" 7]
  show ?thesis
    by (simp add: fresh_order_def fixedZone_def)
qed

text \<open>
  C3 as stated fails: under \<open>'no_action'\<close> an order whose initial status is the empty
  string is kept, although that status is not absent.
\<close>

theorem no_action_keeps_empty_status:
  "initial_pattern_status ((fresh_order ''E'' 518400000)\<lparr>initial_pattern_status := Some []\<rparr>) \<noteq> None
   \<and> applyFilters fixedZone fixedZone 864000000
        [(fresh_order ''E'' 518400000)\<lparr>initial_pattern_status := Some []\<rparr>] ''no_action'' 7
      = [(fresh_order ''E'' 518400000)\<lparr>initial_pattern_status := Some []\<rparr>]"
  by (simp add: applyFilters_def setDate_getDate_minus_def LocalTime_def UTC_def MakeDate_def
      Day_def TimeWithinDay_def msPerDay_def onOrAfter_def truthy_def fresh_order_def
      fixedZone_def)

subsection \<open>The empty order list of the Dashboard\<close>

lemma resolve_bound: "set ns \<subseteq> set Dashboard_scope \<Longrightarrow> resolve ns = Inr ()"
  by (induction ns) auto

lemma Shield_unbound: "''Shield'' \<notin> set Dashboard_scope"
  by (simp add: Dashboard_scope_def)

lemma header_bound: "resolve (headerTags u) = Inr ()"
  by (rule resolve_bound) (auto simp: headerTags_def Dashboard_scope_def)

lemma cards_bound: "resolve (concat (map (\<lambda>ord. orderCardTags) os)) = Inr ()"
  by (rule resolve_bound) (auto simp: orderCardTags_def Dashboard_scope_def)

lemma shimmer_bound: "resolve (replicate 6 ''Card'') = Inr ()"
  by (rule resolve_bound) (auto simp: Dashboard_scope_def)

lemma empty_bound:
  "resolve [''FileText'', ''Button'', ''Plus''] = Inr ()"
  "resolve [''FileText''] = Inr ()"
  "resolve [''Card''] = Inr ()"
  by (rule resolve_bound, simp add: Dashboard_scope_def)+

lemma resolve_Shield: "resolve [''Shield''] = Inl (ReferenceError ''Shield'')"
  using Shield_unbound by simp

text \<open>
  C8. \<open>Shield\<close> is not among the identifiers bound in Dashboard.jsx. When the order list
  is loaded and empty and the user is neither approved nor an admin, rendering evaluates
  \<open><Shield .../>\<close> and ends in a \<open>ReferenceError\<close>; in every other state the render
  completes. The failing state is reached from the initial one when \<open>fetchOrders\<close> is
  answered with a 403 or with an empty list.
\<close>

theorem dashboard_pending_branch_unbound_Shield:
  "''Shield'' \<notin> set Dashboard_scope
   \<and> (\<not> ds_loading st \<and> ds_orders st = [] \<and> \<not> user_approved u \<and> user_role u \<noteq> Some ''admin''
        \<longrightarrow> renderDashboard u st = Inl (ReferenceError ''Shield''))
   \<and> (ds_loading st \<or> ds_orders st \<noteq> [] \<or> user_approved u \<or> user_role u = Some ''admin''
        \<longrightarrow> (\<exists>v. renderDashboard u st = Inr v))
   \<and> (e_status e = Some 403 \<and> \<not> user_approved u \<and> user_role u \<noteq> Some ''admin''
        \<longrightarrow> renderDashboard u (fetchOrders_settled (Inl e) dashboard_initial)
              = Inl (ReferenceError ''Shield''))
   \<and> (\<not> user_approved u \<and> user_role u \<noteq> Some ''admin''
        \<longrightarrow> renderDashboard u (fetchOrders_settled (Inr []) dashboard_initial)
              = Inl (ReferenceError ''Shield''))"
proof -
  have a: "\<not> ds_loading st \<and> ds_orders st = [] \<and> \<not> user_approved u \<and> user_role u \<noteq> Some ''admin''
        \<longrightarrow> renderDashboard u st = Inl (ReferenceError ''Shield'')" for st
    by (simp add: renderDashboard_def header_bound empty_bound resolve_Shield seq_def
        del: resolve.simps)
  have b: "ds_loading st \<or> ds_orders st \<noteq> [] \<or> user_approved u \<or> user_role u = Some ''admin''
        \<longrightarrow> (\<exists>v. renderDashboard u st = Inr v)"
    by (simp add: renderDashboard_def header_bound empty_bound cards_bound shimmer_bound seq_def
        del: resolve.simps)
  have s0: "e_status e = Some 403 \<Longrightarrow>
      fetchOrders_settled (Inl e) dashboard_initial = \<lparr>ds_orders = [], ds_loading = False\<rparr>"
    by (simp add: fetchOrders_settled_def dashboard_initial_def)
  have s1: "fetchOrders_settled (Inr []) dashboard_initial = \<lparr>ds_orders = [], ds_loading = False\<rparr>"
    by (simp add: fetchOrders_settled_def dashboard_initial_def)
  have c: "e_status e = Some 403 \<and> \<not> user_approved u \<and> user_role u \<noteq> Some ''admin''
        \<longrightarrow> renderDashboard u (fetchOrders_settled (Inl e) dashboard_initial)
              = Inl (ReferenceError ''Shield'')"
    using a [of "\<lparr>ds_orders = [], ds_loading = False\<rparr>"] s0 by auto
  have d: "\<not> user_approved u \<and> user_role u \<noteq> Some ''admin''
        \<longrightarrow> renderDashboard u (fetchOrders_settled (Inr []) dashboard_initial)
              = Inl (ReferenceError ''Shield'')"
    using a [of "\<lparr>ds_orders = [], ds_loading = False\<rparr>"] s1 by auto
  from Shield_unbound a [of st] b c d show ?thesis by blast
qed


theorem dashboard_pending_branch_unbound_Shield_witness:
  "e_status \<lparr>e_status = Some 403, e_detail = None\<rparr> = Some 403
   \<and> \<not> user_approved (Some pending) \<and> user_role (Some pending) \<noteq> Some ''admin''
   \<and> renderDashboard (Some pending)
        (fetchOrders_settled (Inl \<lparr>e_status = Some 403, e_detail = None\<rparr>) dashboard_initial)
      = Inl (ReferenceError ''Shield'')
   \<and> (\<exists>v. renderDashboard (Some checker)
        (fetchOrders_settled (Inl \<lparr>e_status = Some 403, e_detail = None\<rparr>) dashboard_initial)
      = Inr v)"
  using dashboard_pending_branch_unbound_Shield
      [of "fetchOrders_settled (Inl \<lparr>e_status = Some 403, e_detail = None\<rparr>) dashboard_initial"
          "Some pending" "\<lparr>e_status = Some 403, e_detail = None\<rparr>"]
    dashboard_pending_branch_unbound_Shield
      [of "fetchOrders_settled (Inl \<lparr>e_status = Some 403, e_detail = None\<rparr>) dashboard_initial"
          "Some checker" "\<lparr>e_status = Some 403, e_detail = None\<rparr>"]
  by (simp add: user_approved_def user_role_def pending_def checker_def)

subsection \<open>The metrics of NewDashboard\<close>

lemma js_gt_zero_nonzero: "js_gt d (Fin 0) \<Longrightarrow> d \<noteq> Fin 0"
  by (auto simp: js_gt_def)

lemma approvalRate_divisors:
  "snd (approvalRate m) = (if js_gt (total_orders m) (Fin 0) then [total_orders m] else [])"
  by (simp add: approvalRate_def js_div_log_def)

lemma patternsPerOrder_divisors:
  "snd (patternsPerOrder m) = (if js_gt (total_orders m) (Fin 0) then [total_orders m] else [])"
  by (simp add: patternsPerOrder_def js_div_log_def)

lemma formatTime_divisors: "d \<in> set (snd (formatTime h)) \<Longrightarrow> d = Fin 24"
  by (auto simp: formatTime_def js_div_log_def split: if_splits)

lemma metricCards_divisors:
  "snd (metricCards m) = snd (approvalRate m) @ snd (formatTime (avg_pattern_making_time_hours m))
     @ snd (formatTime (avg_approval_time_hours m))"
  by (simp add: metricCards_def split: prod.splits)

lemma periodSummary_divisors:
  "snd (periodSummary m) = snd (patternsPerOrder m)
     @ snd (formatTime (js_add (avg_pattern_making_time_hours m) (avg_approval_time_hours m)))"
  by (simp add: periodSummary_def split: prod.splits)

lemma card_divisor_positive:
  "d \<in> set (snd (metricCards m)) \<Longrightarrow> js_gt d (Fin 0)"
  by (auto simp: metricCards_divisors approvalRate_divisors js_gt_def
      dest: formatTime_divisors split: if_splits)

lemma summary_divisor_positive:
  "d \<in> set (snd (periodSummary m)) \<Longrightarrow> js_gt d (Fin 0)"
  by (auto simp: periodSummary_divisors patternsPerOrder_divisors js_gt_def
      dest: formatTime_divisors split: if_splits)

lemma render_divisors:
  "snd (renderNewDashboard loading ms)
     = (if loading then [] else (case ms of Some m \<Rightarrow> snd (metricCards m) | None \<Rightarrow> []))
       @ (case ms of Some m \<Rightarrow> snd (periodSummary m) | None \<Rightarrow> [])"
  by (simp add: renderNewDashboard_def split_beta split: option.splits)

lemma render_divisor_positive:
  "d \<in> set (snd (renderNewDashboard loading ms)) \<Longrightarrow> js_gt d (Fin 0)"
  unfolding render_divisors
  by (auto split: if_splits option.splits
      dest: card_divisor_positive summary_divisor_positive)

lemma binary64_48: "binary64 48 = Fin 48"
  by code_simp

text \<open>
  C9. Every division that rendering NewDashboard evaluates has a divisor greater than
  zero: the approval rate and the patterns-per-order ratio divide by \<open>total_orders\<close> only
  under the guard \<open>total_orders > 0\<close> (\<open>formatTime\<close> divides by the constant 24). When
  the guard fails nothing is divided and the fixed texts \<open>'No orders yet'\<close> and \<open>'0'\<close>
  are rendered; when it holds, finite metrics give the rounded quotient, not the result of
  a division by zero.
\<close>

theorem metrics_never_divide_by_zero:
  "(\<forall>d \<in> set (snd (renderNewDashboard loading ms)). js_gt d (Fin 0) \<and> d \<noteq> Fin 0)
   \<and> (\<not> js_gt (total_orders m) (Fin 0) \<longrightarrow>
         approvalRate m = (NoOrdersYet, []) \<and> patternsPerOrder m = (ZeroText, []))
   \<and> (js_gt (total_orders m) (Fin 0) \<longrightarrow>
         snd (approvalRate m) = [total_orders m] \<and> snd (patternsPerOrder m) = [total_orders m]
         \<and> total_orders m \<noteq> Fin 0)
   \<and> (\<forall>t a p. total_orders m = Fin t \<and> approved_patterns m = Fin a \<and> total_patterns m = Fin p
         \<and> 0 < t \<longrightarrow>
         fst (approvalRate m) = ApprovalRate (Math_round (js_mul (binary64 (a / t)) (Fin 100)))
         \<and> fst (patternsPerOrder m) = PatternsPerOrder (toFixed1 (binary64 (p / t))))"
proof -
  have 1: "\<forall>d \<in> set (snd (renderNewDashboard loading ms)). js_gt d (Fin 0) \<and> d \<noteq> Fin 0"
    using render_divisor_positive js_gt_zero_nonzero by blast
  have 2: "\<not> js_gt (total_orders m) (Fin 0) \<longrightarrow>
         approvalRate m = (NoOrdersYet, []) \<and> patternsPerOrder m = (ZeroText, [])"
    by (simp add: approvalRate_def patternsPerOrder_def)
  have 3: "js_gt (total_orders m) (Fin 0) \<longrightarrow>
         snd (approvalRate m) = [total_orders m] \<and> snd (patternsPerOrder m) = [total_orders m]
         \<and> total_orders m \<noteq> Fin 0"
    by (simp add: approvalRate_divisors patternsPerOrder_divisors js_gt_zero_nonzero)
  have 4: "\<forall>t a p. total_orders m = Fin t \<and> approved_patterns m = Fin a \<and> total_patterns m = Fin p
         \<and> 0 < t \<longrightarrow>
         fst (approvalRate m) = ApprovalRate (Math_round (js_mul (binary64 (a / t)) (Fin 100)))
         \<and> fst (patternsPerOrder m) = PatternsPerOrder (toFixed1 (binary64 (p / t)))"
    by (simp add: approvalRate_def patternsPerOrder_def js_div_log_def js_gt_def)
  from 1 2 3 4 show ?thesis by blast
qed

theorem metrics_never_divide_by_zero_witness:
  "snd (renderNewDashboard False (Some metrics1)) = [Fin 200, Fin 24, Fin 200, Fin 24]
   \<and> Fin 0 \<notin> set (snd (renderNewDashboard False (Some metrics1)))
   \<and> js_gt (total_orders metrics1) (Fin 0)
   \<and> approvalRate metrics1 = (ApprovalRate (Fin 14), [Fin 200])
   \<and> patternsPerOrder metrics1 = (PatternsPerOrder (Fin (7 / 5)), [Fin 200])
   \<and> \<not> js_gt (total_orders (metrics1\<lparr>total_orders := Fin 0\<rparr>)) (Fin 0)
   \<and> approvalRate (metrics1\<lparr>total_orders := Fin 0\<rparr>) = (NoOrdersYet, [])
   \<and> patternsPerOrder (metrics1\<lparr>total_orders := Fin 0\<rparr>) = (ZeroText, [])"
proof -
  have d: "snd (renderNewDashboard False (Some metrics1)) = [Fin 200, Fin 24, Fin 200, Fin 24]"
    by (simp add: render_divisors metricCards_divisors periodSummary_divisors
        approvalRate_divisors patternsPerOrder_divisors formatTime_def js_div_log_def js_gt_def
        metrics1_def binary64_48)
  have g: "js_gt (total_orders metrics1) (Fin 0)"
    and z: "\<not> js_gt (total_orders (metrics1\<lparr>total_orders := Fin 0\<rparr>)) (Fin 0)"
    by (simp_all add: metrics1_def js_gt_def)
  have f: "Math_round (js_mul (binary64 (29 / 200)) (Fin 100)) = Fin 14"
    by code_simp
  have t: "toFixed1 (binary64 (290 / 200)) = Fin (7 / 5)"
    by code_simp
  from metrics_never_divide_by_zero [of False "Some metrics1" metrics1] g
  have a: "fst (approvalRate metrics1) = ApprovalRate (Fin 14)"
    and a2: "snd (approvalRate metrics1) = [Fin 200]"
    and p: "fst (patternsPerOrder metrics1) = PatternsPerOrder (Fin (7 / 5))"
    and p2: "snd (patternsPerOrder metrics1) = [Fin 200]"
    and n: "Fin 0 \<notin> set (snd (renderNewDashboard False (Some metrics1)))"
    using f t by (auto simp: metrics1_def simp del: Math_round.simps toFixed1.simps js_mul.simps)
  from metrics_never_divide_by_zero [of False "Some metrics1" "metrics1\<lparr>total_orders := Fin 0\<rparr>"] z
  have b: "approvalRate (metrics1\<lparr>total_orders := Fin 0\<rparr>) = (NoOrdersYet, [])"
    and q: "patternsPerOrder (metrics1\<lparr>total_orders := Fin 0\<rparr>) = (ZeroText, [])"
    by simp_all
  from a a2 have a': "approvalRate metrics1 = (ApprovalRate (Fin 14), [Fin 200])"
    by (simp add: prod_eq_iff)
  from p p2 have p': "patternsPerOrder metrics1 = (PatternsPerOrder (Fin (7 / 5)), [Fin 200])"
    by (simp add: prod_eq_iff)
  from d n g a' p' z b q show ?thesis by blast
qed

end
